theory Spec2Isabelle
  imports Complex_Main
begin

section \<open>JavaScript numbers\<close>

text \<open>
  The kinematics engine of \<^verbatim>\<open>src/RobotKinematics.ts\<close> computes on JavaScript numbers.
  A number is modelled as an exact real, or one of the three special values of IEEE
  arithmetic that the program can produce without any rounding: the two infinities
  (a non-zero number divided by zero) and NaN (zero divided by zero, \<^verbatim>\<open>Math.acos\<close>
  outside its domain, and every operation on NaN).  Rounding, overflow and the sign of
  zero are not modelled: the arithmetic on \<open>Num\<close> is exact.  The one exception is the
  rounded addition at the end of this section, for the sum of the link lengths, whose
  stated accuracy is a matter of rounding.  The engine takes the
  absolute value of each quotient before it branches on it, so the sign that a negative
  zero would give an infinity has no effect on it.  The comparisons are JavaScript's:
  they are false whenever an operand is NaN.
\<close>

datatype number = Num real | PInf | NInf | NaN

instantiation number :: "{plus, minus, uminus, times, inverse, ord}"
begin

fun uminus_number :: "number \<Rightarrow> number" where
  "uminus_number (Num a) = Num (- a)"
| "uminus_number PInf = NInf"
| "uminus_number NInf = PInf"
| "uminus_number NaN = NaN"

fun plus_number :: "number \<Rightarrow> number \<Rightarrow> number" where
  "plus_number (Num a) (Num b) = Num (a + b)"
| "plus_number NaN y = NaN"
| "plus_number x NaN = NaN"
| "plus_number PInf NInf = NaN"
| "plus_number NInf PInf = NaN"
| "plus_number PInf y = PInf"
| "plus_number NInf y = NInf"
| "plus_number x PInf = PInf"
| "plus_number x NInf = NInf"

definition minus_number :: "number \<Rightarrow> number \<Rightarrow> number" where
  "minus_number (x::number) y = x + (- y)"

fun times_number :: "number \<Rightarrow> number \<Rightarrow> number" where
  "times_number (Num a) (Num b) = Num (a * b)"
| "times_number NaN y = NaN"
| "times_number x NaN = NaN"
| "times_number PInf PInf = PInf"
| "times_number PInf NInf = NInf"
| "times_number NInf PInf = NInf"
| "times_number NInf NInf = PInf"
| "times_number PInf (Num b) = (if b = 0 then NaN else if 0 < b then PInf else NInf)"
| "times_number NInf (Num b) = (if b = 0 then NaN else if 0 < b then NInf else PInf)"
| "times_number (Num a) PInf = (if a = 0 then NaN else if 0 < a then PInf else NInf)"
| "times_number (Num a) NInf = (if a = 0 then NaN else if 0 < a then NInf else PInf)"

fun divide_number :: "number \<Rightarrow> number \<Rightarrow> number" where
  "divide_number (Num a) (Num b) =
     (if b = 0 then (if a = 0 then NaN else if 0 < a then PInf else NInf)
      else Num (a / b))"
| "divide_number NaN y = NaN"
| "divide_number x NaN = NaN"
| "divide_number (Num a) PInf = Num 0"
| "divide_number (Num a) NInf = Num 0"
| "divide_number PInf (Num b) = (if 0 \<le> b then PInf else NInf)"
| "divide_number NInf (Num b) = (if 0 \<le> b then NInf else PInf)"
| "divide_number x y = NaN"

fun inverse_number :: "number \<Rightarrow> number" where
  "inverse_number (Num a) = (if a = 0 then PInf else Num (inverse a))"
| "inverse_number PInf = Num 0"
| "inverse_number NInf = Num 0"
| "inverse_number NaN = NaN"

fun less_number :: "number \<Rightarrow> number \<Rightarrow> bool" where
  "less_number (Num a) (Num b) = (a < b)"
| "less_number NaN y = False"
| "less_number x NaN = False"
| "less_number x NInf = False"
| "less_number PInf y = False"
| "less_number NInf y = True"
| "less_number x PInf = True"

fun less_eq_number :: "number \<Rightarrow> number \<Rightarrow> bool" where
  "less_eq_number (Num a) (Num b) = (a \<le> b)"
| "less_eq_number NaN y = False"
| "less_eq_number x NaN = False"
| "less_eq_number NInf y = True"
| "less_eq_number x PInf = True"
| "less_eq_number x NInf = False"
| "less_eq_number PInf y = False"

instance ..

end

text \<open>The functions of \<^verbatim>\<open>Math\<close> that the engine calls.\<close>

fun Math_cos :: "number \<Rightarrow> number" where
  "Math_cos (Num a) = Num (cos a)"
| "Math_cos x = NaN"

fun Math_sin :: "number \<Rightarrow> number" where
  "Math_sin (Num a) = Num (sin a)"
| "Math_sin x = NaN"

fun Math_sqrt :: "number \<Rightarrow> number" where
  "Math_sqrt (Num a) = (if a < 0 then NaN else Num (sqrt a))"
| "Math_sqrt PInf = PInf"
| "Math_sqrt x = NaN"

fun Math_abs :: "number \<Rightarrow> number" where
  "Math_abs (Num a) = Num \<bar>a\<bar>"
| "Math_abs PInf = PInf"
| "Math_abs NInf = PInf"
| "Math_abs NaN = NaN"

fun Math_acos :: "number \<Rightarrow> number" where
  "Math_acos (Num a) = (if a < - 1 then NaN else if 1 < a then NaN else Num (arccos a))"
| "Math_acos x = NaN"

text \<open>\<^verbatim>\<open>Math.pow(x, n)\<close> for a natural exponent (the engine only squares).\<close>

definition Math_pow :: "number \<Rightarrow> nat \<Rightarrow> number" where
  "Math_pow x n =
     (if n = 0 then Num 1
      else case x of
             Num a \<Rightarrow> Num (a ^ n)
           | PInf \<Rightarrow> PInf
           | NInf \<Rightarrow> (if even n then PInf else NInf)
           | NaN \<Rightarrow> NaN)"

text \<open>The angle of the point \<open>(x, y)\<close>, in \<open>(-\<pi>, \<pi>]\<close>, with \<open>atan2 0 0 = 0\<close>.\<close>

definition atan2 :: "real \<Rightarrow> real \<Rightarrow> real" where
  "atan2 y x =
     (if 0 < x then arctan (y / x)
      else if x < 0 then (if 0 \<le> y then arctan (y / x) + pi else arctan (y / x) - pi)
      else if 0 < y then pi / 2
      else if y < 0 then - (pi / 2)
      else 0)"

fun Math_atan2 :: "number \<Rightarrow> number \<Rightarrow> number" where
  "Math_atan2 (Num y) (Num x) = Num (atan2 y x)"
| "Math_atan2 NaN x = NaN"
| "Math_atan2 y NaN = NaN"
| "Math_atan2 (Num y) PInf = Num 0"
| "Math_atan2 (Num y) NInf = (if 0 \<le> y then Num pi else Num (- pi))"
| "Math_atan2 PInf (Num x) = Num (pi / 2)"
| "Math_atan2 NInf (Num x) = Num (- (pi / 2))"
| "Math_atan2 PInf PInf = Num (pi / 4)"
| "Math_atan2 PInf NInf = Num (3 * pi / 4)"
| "Math_atan2 NInf PInf = Num (- (pi / 4))"
| "Math_atan2 NInf NInf = Num (- (3 * pi / 4))"

definition Math_PI :: number where
  "Math_PI = Num pi"

subsection \<open>Rounded addition\<close>

text \<open>
  Where the rounding of an addition matters, it is modelled as IEEE 754 prescribes it for
  binary64: the exact sum is rounded to the nearest double, a tie goes to the double whose
  significand is even, and a result of magnitude \<open>2\<^sup>1\<^sup>0\<^sup>2\<^sup>4\<close> or more is an
  infinity.  The doubles at the exponent \<open>e\<close> of \<open>x\<close> are the integer multiples of
  \<open>2\<^sup>e\<^sup>-\<^sup>5\<^sup>2\<close>; below \<open>2\<^sup>-\<^sup>1\<^sup>0\<^sup>2\<^sup>2\<close> the exponent stays \<open>-1022\<close>.
\<close>

definition round_half_even :: "real \<Rightarrow> int" where
  "round_half_even q =
     (let f = \<lfloor>q\<rfloor>
      in if q - of_int f < 1 / 2 then f
         else if 1 / 2 < q - of_int f then f + 1
         else if even f then f else f + 1)"

definition double_of :: "real \<Rightarrow> number" where
  "double_of x =
     (if x = 0 then Num 0
      else
        let e = max \<lfloor>log 2 \<bar>x\<bar>\<rfloor> (- 1022);
            ulp = 2 powr (of_int e - 52);
            y = of_int (round_half_even (x / ulp)) * ulp
        in if 2 ^ 1024 \<le> \<bar>y\<bar> then (if 0 < x then PInf else NInf) else Num y)"

fun double_add :: "number \<Rightarrow> number \<Rightarrow> number" where
  "double_add (Num x) (Num y) = double_of (x + y)"
| "double_add u v = u + v"


section \<open>Data model\<close>

datatype JointType = Revolute | Prismatic

record Point3D =
  px :: number
  py :: number
  pz :: number

record DHParameters =
  theta :: number
  d :: number
  a :: number
  alpha :: number

record JointLimit =
  min_limit :: number
  max_limit :: number

record RobotConfig =
  name :: string
  description :: string
  dhParameters :: "DHParameters list"
  jointLimits :: "JointLimit list"
  jointTypes :: "JointType list"
  baseOffset :: Point3D
  toolOffset :: Point3D

record IKResult =
  solutions :: "number list list"
  valid :: bool

text \<open>What a call can throw: the engine's own \<^verbatim>\<open>Error\<close>, the \<^verbatim>\<open>TypeError\<close> of
  \<^verbatim>\<open>Array.prototype.reduce\<close>, and the range errors of the matrix library.\<close>

datatype js_error = Error string | TypeError string | RangeError string

section \<open>Matrices\<close>

text \<open>
  A dense matrix of the external library \<^verbatim>\<open>mathjs\<close> is the list of its rows.  The three
  operations the engine uses are modelled after the library's documented behaviour:
  \<^verbatim>\<open>multiply\<close> is the matrix product (each entry the sum, from the left, of the products
  along a row and a column) and throws when the inner dimensions differ, \<^verbatim>\<open>get\<close> and
  \<^verbatim>\<open>subset\<close> read entries and throw when an index is out of range.
\<close>

type_synonym matrix = "number list list"

definition nrows :: "matrix \<Rightarrow> nat" where
  "nrows m = length m"

definition ncols :: "matrix \<Rightarrow> nat" where
  "ncols m = (case m of [] \<Rightarrow> 0 | row # _ \<Rightarrow> length row)"

definition column :: "matrix \<Rightarrow> nat \<Rightarrow> number list" where
  "column m j = map (\<lambda>row. row ! j) m"

definition dot :: "number list \<Rightarrow> number list \<Rightarrow> number" where
  "dot row col =
     (case zip row col of
        [] \<Rightarrow> Num 0
      | (u, v) # rest \<Rightarrow> foldl (\<lambda>sum (u, v). sum + u * v) (u * v) rest)"

definition multiply :: "matrix \<Rightarrow> matrix \<Rightarrow> js_error + matrix" where
  "multiply m1 m2 =
     (if ncols m1 = nrows m2
      then Inr (map (\<lambda>row. map (\<lambda>j. dot row (column m2 j)) [0 ..< ncols m2]) m1)
      else Inl (RangeError ''Dimension mismatch in multiplication''))"

definition get :: "matrix \<Rightarrow> nat \<Rightarrow> nat \<Rightarrow> js_error + number" where
  "get m i j =
     (if i < nrows m \<and> j < ncols m then Inr (m ! i ! j)
      else Inl (RangeError ''Index out of range''))"

definition subset :: "matrix \<Rightarrow> nat list \<Rightarrow> nat list \<Rightarrow> js_error + matrix" where
  "subset m rows cols =
     (if list_all (\<lambda>i. i < nrows m) rows \<and> list_all (\<lambda>j. j < ncols m) cols
      then Inr (map (\<lambda>i. map (\<lambda>j. m ! i ! j) cols) rows)
      else Inl (RangeError ''Index out of range''))"

text \<open>\<^verbatim>\<open>Array.prototype.reduce\<close> without an initial value: the first element starts the
  accumulator, and an empty array is a \<^verbatim>\<open>TypeError\<close>.\<close>

fun reduce_from :: "('a \<Rightarrow> 'a \<Rightarrow> js_error + 'a) \<Rightarrow> 'a \<Rightarrow> 'a list \<Rightarrow> js_error + 'a" where
  "reduce_from f acc [] = Inr acc"
| "reduce_from f acc (cur # rest) =
     (case f acc cur of Inl e \<Rightarrow> Inl e | Inr acc' \<Rightarrow> reduce_from f acc' rest)"

definition reduce :: "('a \<Rightarrow> 'a \<Rightarrow> js_error + 'a) \<Rightarrow> 'a list \<Rightarrow> js_error + 'a" where
  "reduce f xs =
     (case xs of
        [] \<Rightarrow> Inl (TypeError ''Reduce of empty array with no initial value'')
      | x # rest \<Rightarrow> reduce_from f x rest)"

text \<open>The decimal numeral that a template literal prints for an array length.\<close>

definition digit_char :: "nat \<Rightarrow> char" where
  "digit_char n = ''0123456789'' ! n"

function string_of_nat :: "nat \<Rightarrow> string" where
  "string_of_nat n =
     (if n < 10 then [digit_char n] else string_of_nat (n div 10) @ [digit_char (n mod 10)])"
  by pat_completeness auto
termination
  by (relation "measure (\<lambda>n. n)") auto

section \<open>The kinematics engine\<close>

record RobotKinematics =
  config :: RobotConfig
  dhMatrices :: "matrix list"
  numJoints :: nat

text \<open>\<^verbatim>\<open>calculateDHTransform\<close>: the transform of one joint.\<close>

definition calculateDHTransform :: "DHParameters \<Rightarrow> number \<Rightarrow> matrix" where
  "calculateDHTransform params jointAngle =
     (let ct = Math_cos (theta params + jointAngle);
          st = Math_sin (theta params + jointAngle);
          ca = Math_cos (alpha params);
          sa = Math_sin (alpha params)
      in [[ct, - st * ca, st * sa, a params * ct],
          [st, ct * ca, - ct * sa, a params * st],
          [Num 0, sa, ca, d params],
          [Num 0, Num 0, Num 0, Num 1]])"

text \<open>The constructor.\<close>

definition new_RobotKinematics :: "RobotConfig \<Rightarrow> RobotKinematics" where
  "new_RobotKinematics cfg =
     \<lparr>config = cfg,
      dhMatrices = map (\<lambda>params. calculateDHTransform params (Num 0)) (dhParameters cfg),
      numJoints = length (dhParameters cfg)\<rparr>"

record Pose =
  position :: "number \<times> number \<times> number"
  orientation :: matrix

text \<open>\<^verbatim>\<open>calculateForwardKinematics\<close>.  After the length check every index of the
  \<^verbatim>\<open>map\<close> callback is within \<open>jointAngles\<close>.\<close>

definition calculateForwardKinematics :: "RobotKinematics \<Rightarrow> number list \<Rightarrow> js_error + Pose" where
  "calculateForwardKinematics rk jointAngles =
     (if length jointAngles \<noteq> numJoints rk
      then Inl (Error (''Expected '' @ string_of_nat (numJoints rk) @ '' joint angles, got ''
                        @ string_of_nat (length jointAngles)))
      else
        let transforms =
              map (\<lambda>(params, i). calculateDHTransform params (jointAngles ! i))
                (zip (dhParameters (config rk)) [0 ..< length (dhParameters (config rk))])
        in case reduce multiply transforms of
             Inl e \<Rightarrow> Inl e
           | Inr finalTransform \<Rightarrow>
               (case get finalTransform 0 3 of
                  Inl e \<Rightarrow> Inl e
                | Inr p0 \<Rightarrow>
                    (case get finalTransform 1 3 of
                       Inl e \<Rightarrow> Inl e
                     | Inr p1 \<Rightarrow>
                         (case get finalTransform 2 3 of
                            Inl e \<Rightarrow> Inl e
                          | Inr p2 \<Rightarrow>
                              (case subset finalTransform [0, 1, 2] [0, 1, 2] of
                                 Inl e \<Rightarrow> Inl e
                               | Inr rot \<Rightarrow> Inr \<lparr>position = (p0, p1, p2), orientation = rot\<rparr>)))))"

definition getNumJoints :: "RobotKinematics \<Rightarrow> nat" where
  "getNumJoints rk = numJoints rk"


text \<open>
  The same \<^verbatim>\<open>reduce\<close> with every addition rounded to a double, for link lengths that
  are doubles: what \<^verbatim>\<open>getWorkspaceRadius\<close> returns on the machine.
\<close>

definition getWorkspaceRadius_double :: "RobotKinematics \<Rightarrow> number" where
  "getWorkspaceRadius_double rk =
     foldl (\<lambda>sum params. double_add sum (a params)) (Num 0) (dhParameters (config rk))"


section \<open>Inverse kinematics\<close>

text \<open>The object \<^verbatim>\<open>{ solution, error }\<close> that a sweep keeps.\<close>

record Candidate =
  solution :: "number list"
  error :: number

text \<open>
  The body of the first loop of \<^verbatim>\<open>calculateInverseKinematics\<close> for one base angle:
  \<open>None\<close> is a \<^verbatim>\<open>continue\<close>, otherwise the candidate and its position error.  The
  target coordinates and the link parameters \<open>a1\<close>, \<open>a2\<close>, \<open>a3\<close>, \<open>d1\<close>, \<open>d2\<close> are
  the constants that the enclosing function computes before the loop.
\<close>

definition elbowDownCandidate ::
  "RobotKinematics \<Rightarrow> number \<Rightarrow> number \<Rightarrow> number \<Rightarrow> number \<Rightarrow> number \<Rightarrow> number \<Rightarrow> number \<Rightarrow> number
     \<Rightarrow> number \<Rightarrow> js_error + Candidate option" where
  "elbowDownCandidate rk x y z a1 a2 a3 d1 d2 theta1 =
     (let shoulderX = a1 * Math_cos theta1;
          shoulderY = a1 * Math_sin theta1;
          shoulderZ = d1 + d2;
          dx = x - shoulderX;
          dy = y - shoulderY;
          dz = z - shoulderZ;
          shoulderToTarget = Math_sqrt (dx * dx + dy * dy + dz * dz)
      in if shoulderToTarget > a2 + a3 then Inr None
         else
           let cosTheta3 = (a2 * a2 + a3 * a3 - shoulderToTarget * shoulderToTarget)
                             / (Num 2 * a2 * a3)
           in if Math_abs cosTheta3 > Num 1 then Inr None
              else
                let theta3 = Math_acos cosTheta3;
                    cosTheta2 = (a2 * a2 + shoulderToTarget * shoulderToTarget - a3 * a3)
                                  / (Num 2 * a2 * shoulderToTarget)
                in if Math_abs cosTheta2 > Num 1 then Inr None
                   else
                     let alpha = Math_acos cosTheta2;
                         beta = Math_atan2 dz (Math_sqrt (dx * dx + dy * dy));
                         theta2 = beta - alpha;
                         solution = [theta1, theta2, theta3]
                     in case calculateForwardKinematics rk solution of
                          Inl e \<Rightarrow> Inl e
                        | Inr fkResult \<Rightarrow>
                            let error = Math_sqrt
                                  (Math_pow (fst (position fkResult) - x) 2
                                   + Math_pow (fst (snd (position fkResult)) - y) 2
                                   + Math_pow (snd (snd (position fkResult)) - z) 2)
                            in Inr (Some \<lparr>solution = solution, error = error\<rparr>))"

text \<open>The body of the second loop, with the elbow angle fixed to \<open>invertedTheta3\<close>.\<close>

definition elbowUpCandidate ::
  "RobotKinematics \<Rightarrow> number \<Rightarrow> number \<Rightarrow> number \<Rightarrow> number \<Rightarrow> number \<Rightarrow> number \<Rightarrow> number \<Rightarrow> number
     \<Rightarrow> number \<Rightarrow> number \<Rightarrow> js_error + Candidate option" where
  "elbowUpCandidate rk x y z a1 a2 a3 d1 d2 invertedTheta3 theta1 =
     (let shoulderX = a1 * Math_cos theta1;
          shoulderY = a1 * Math_sin theta1;
          shoulderZ = d1 + d2;
          dx = x - shoulderX;
          dy = y - shoulderY;
          dz = z - shoulderZ;
          shoulderToTarget = Math_sqrt (dx * dx + dy * dy + dz * dz)
      in if shoulderToTarget > a2 + a3 then Inr None
         else
           let cosTheta2 = (a2 * a2 + shoulderToTarget * shoulderToTarget - a3 * a3)
                             / (Num 2 * a2 * shoulderToTarget)
           in if Math_abs cosTheta2 > Num 1 then Inr None
              else
                let alpha = Math_acos cosTheta2;
                    beta = Math_atan2 dz (Math_sqrt (dx * dx + dy * dy));
                    newTheta2 = beta - alpha;
                    solution = [theta1, newTheta2, invertedTheta3]
                in case calculateForwardKinematics rk solution of
                     Inl e \<Rightarrow> Inl e
                   | Inr fkResult \<Rightarrow>
                       let error = Math_sqrt
                             (Math_pow (fst (position fkResult) - x) 2
                              + Math_pow (fst (snd (position fkResult)) - y) 2
                              + Math_pow (snd (snd (position fkResult)) - z) 2)
                       in Inr (Some \<lparr>solution = solution, error = error\<rparr>))"

text \<open>The conditions under which a loop replaces the candidate it keeps:
  \<^verbatim>\<open>bestSolution === null || error < bestSolution.error\<close> in the first loop,
  \<^verbatim>\<open>error < 0.1 && (elbowUpSolution === null || error < elbowUpSolution.error)\<close> in the
  second.\<close>

definition keepElbowDown :: "Candidate \<Rightarrow> Candidate option \<Rightarrow> bool" where
  "keepElbowDown c bestSolution =
     (case bestSolution of None \<Rightarrow> True | Some b \<Rightarrow> error c < error b)"

definition keepElbowUp :: "Candidate \<Rightarrow> Candidate option \<Rightarrow> bool" where
  "keepElbowUp c elbowUpSolution =
     (error c < Num (1 / 10)
      \<and> (case elbowUpSolution of None \<Rightarrow> True | Some b \<Rightarrow> error c < error b))"

text \<open>
  Both loops are \<^verbatim>\<open>for (let theta1 = 0; theta1 < 2 * Math.PI; theta1 += stepSize)\<close> with
  \<^verbatim>\<open>stepSize = Math.PI / 180\<close>.  The loop variable starts at 0 and only ever has the
  step added to it, so it is a real; the body receives it as a number.  The additions are
  exact here, and the loop runs 360 times.  On the machine the 360 rounded additions end
  just below \<^verbatim>\<open>2 * Math.PI\<close>, and the loop of the source runs once more, at a base
  angle just below \<open>2\<pi>\<close>.  What is stated of the solver below is stated of results that
  the first base angle decides, or of every target, and does not rest on the number of
  base angles.
\<close>

definition stepSize :: real where
  "stepSize = pi / 180"

function sweep ::
  "(number \<Rightarrow> js_error + Candidate option) \<Rightarrow> (Candidate \<Rightarrow> Candidate option \<Rightarrow> bool)
     \<Rightarrow> real \<Rightarrow> Candidate option \<Rightarrow> js_error + Candidate option" where
  "sweep body keep theta1 best =
     (if Num theta1 < Num 2 * Math_PI then
        (case body (Num theta1) of
           Inl e \<Rightarrow> Inl e
         | Inr None \<Rightarrow> sweep body keep (theta1 + stepSize) best
         | Inr (Some c) \<Rightarrow>
             sweep body keep (theta1 + stepSize) (if keep c best then Some c else best))
      else Inr best)"
  by pat_completeness auto
termination
proof (relation "measure (\<lambda>(body, keep, theta1, best). nat \<lceil>(2 * pi - theta1) / stepSize\<rceil>)")
  show "wf (measure (\<lambda>(body, keep, theta1, best). nat \<lceil>(2 * pi - theta1) / stepSize\<rceil>))"
    by simp
next
  have step: "nat \<lceil>(2 * pi - (t + stepSize)) / stepSize\<rceil> < nat \<lceil>(2 * pi - t) / stepSize\<rceil>"
    if "t < 2 * pi" for t
  proof -
    have pos: "0 < stepSize" by (simp add: stepSize_def)
    have eq: "(2 * pi - (t + stepSize)) / stepSize = (2 * pi - t) / stepSize - 1"
      using pos by (simp add: field_simps)
    have "0 < (2 * pi - t) / stepSize" using that pos by simp
    then have "0 < \<lceil>(2 * pi - t) / stepSize\<rceil>" by linarith
    then show ?thesis unfolding eq by simp
  qed
  fix body :: "number \<Rightarrow> js_error + Candidate option"
    and keep :: "Candidate \<Rightarrow> Candidate option \<Rightarrow> bool"
    and theta1 :: real and best :: "Candidate option"
  assume "Num theta1 < Num 2 * Math_PI"
  then have lt: "theta1 < 2 * pi" by (simp add: Math_PI_def)
  show "((body, keep, theta1 + stepSize, best), (body, keep, theta1, best))
          \<in> measure (\<lambda>(body, keep, theta1, best). nat \<lceil>(2 * pi - theta1) / stepSize\<rceil>)"
    using step [OF lt] by simp
  fix c :: Candidate
  show "((body, keep, theta1 + stepSize, if keep c best then Some c else best),
           (body, keep, theta1, best))
          \<in> measure (\<lambda>(body, keep, theta1, best). nat \<lceil>(2 * pi - theta1) / stepSize\<rceil>)"
    using step [OF lt] by simp
qed

text \<open>\<^verbatim>\<open>calculateInverseKinematics\<close>.  The optional \<^verbatim>\<open>targetOrientation\<close> is never
  read, and the \<^verbatim>\<open>console.log\<close> calls are left out.\<close>

definition calculateInverseKinematics ::
  "RobotKinematics \<Rightarrow> number \<times> number \<times> number \<Rightarrow> js_error + IKResult" where
  "calculateInverseKinematics rk targetPosition =
     (if numJoints rk \<noteq> 3 then Inr \<lparr>solutions = [], valid = False\<rparr>
      else
        let (x, y, z) = targetPosition;
            a1 = a (dhParameters (config rk) ! 0);
            a2 = a (dhParameters (config rk) ! 1);
            a3 = a (dhParameters (config rk) ! 2);
            d1 = d (dhParameters (config rk) ! 0);
            d2 = d (dhParameters (config rk) ! 1);
            d3 = d (dhParameters (config rk) ! 2);
            h = z - d1;
            r = Math_sqrt (x * x + y * y);
            maxReach = a1 + a2 + a3
        in if r > maxReach then Inr \<lparr>solutions = [], valid = False\<rparr>
           else
             case sweep (elbowDownCandidate rk x y z a1 a2 a3 d1 d2) keepElbowDown 0 None of
               Inl e \<Rightarrow> Inl e
             | Inr None \<Rightarrow> Inr \<lparr>solutions = [], valid = False\<rparr>
             | Inr (Some bestSolution) \<Rightarrow>
                 let theta3 = solution bestSolution ! 2;
                     invertedTheta3 = - theta3
                 in case sweep (elbowUpCandidate rk x y z a1 a2 a3 d1 d2 invertedTheta3)
                           keepElbowUp 0 None of
                      Inl e \<Rightarrow> Inl e
                    | Inr None \<Rightarrow> Inr \<lparr>solutions = [solution bestSolution], valid = True\<rparr>
                    | Inr (Some elbowUpSolution) \<Rightarrow>
                        Inr \<lparr>solutions = [solution bestSolution, solution elbowUpSolution],
                             valid = True\<rparr>)"

definition isReachable :: "RobotKinematics \<Rightarrow> number \<times> number \<times> number \<Rightarrow> js_error + bool" where
  "isReachable rk targetPosition =
     (case calculateInverseKinematics rk targetPosition of
        Inl e \<Rightarrow> Inl e
      | Inr result \<Rightarrow> Inr (valid result))"

section \<open>Notions used to state the properties\<close>

subsection \<open>Matrices of the engine\<close>

text \<open>
  Every matrix the engine handles has four rows of four entries.  \<open>matmul\<close> is the
  matrix product as a total function, and \<open>frame ts i\<close> is the product
  \<open>ts ! 0 \<cdot> ts ! 1 \<cdot> \<dots> \<cdot> ts ! i\<close> taken from the left: the frame of joint \<open>i\<close>
  relative to the base, each transform expressed in the frame of the joint before it.
  \<open>jointTransforms\<close> is the list of one transform per joint, built from that joint's
  parameters and its commanded angle, and \<open>poseOf\<close> reads the translation column and the
  top-left 3\<times>3 block of a transform.
\<close>

definition is4x4 :: "matrix \<Rightarrow> bool" where
  "is4x4 m = (length m = 4 \<and> list_all (\<lambda>row. length row = 4) m)"

definition matmul :: "matrix \<Rightarrow> matrix \<Rightarrow> matrix" where
  "matmul m1 m2 = map (\<lambda>row. map (\<lambda>j. dot row (column m2 j)) [0 ..< ncols m2]) m1"

fun frame :: "matrix list \<Rightarrow> nat \<Rightarrow> matrix" where
  "frame ts 0 = ts ! 0"
| "frame ts (Suc i) = matmul (frame ts i) (ts ! Suc i)"

definition jointTransforms :: "RobotConfig \<Rightarrow> number list \<Rightarrow> matrix list" where
  "jointTransforms cfg jointAngles =
     map (\<lambda>i. calculateDHTransform (dhParameters cfg ! i) (jointAngles ! i))
       [0 ..< length (dhParameters cfg)]"

definition poseOf :: "matrix \<Rightarrow> Pose" where
  "poseOf T =
     \<lparr>position = (T ! 0 ! 3, T ! 1 ! 3, T ! 2 ! 3),
      orientation = [[T ! 0 ! 0, T ! 0 ! 1, T ! 0 ! 2],
                     [T ! 1 ! 0, T ! 1 ! 1, T ! 1 ! 2],
                     [T ! 2 ! 0, T ! 2 ! 1, T ! 2 ! 2]]\<rparr>"

subsection \<open>The sweeps of the inverse solver\<close>

text \<open>
  \<open>sweepAngles\<close> are the 360 base angles of one sweep, \<open>k \<cdot> \<pi> / 180\<close> for
  \<open>k = 0, \<dots>, 359\<close>, and \<open>sweepOver\<close> is a loop over a list of base angles.
  \<open>candidates\<close> lists, in the order of the sweep, the candidates of the base angles that
  are not skipped, and \<open>keepAll\<close> is what a loop keeps of a list of candidates.
\<close>

definition sweepAngles :: "real list" where
  "sweepAngles = map (\<lambda>k. real k * stepSize) [0 ..< 360]"

fun sweepOver ::
  "(number \<Rightarrow> js_error + Candidate option) \<Rightarrow> (Candidate \<Rightarrow> Candidate option \<Rightarrow> bool)
     \<Rightarrow> real list \<Rightarrow> Candidate option \<Rightarrow> js_error + Candidate option" where
  "sweepOver body keep [] best = Inr best"
| "sweepOver body keep (t # ts) best =
     (case body (Num t) of
        Inl e \<Rightarrow> Inl e
      | Inr None \<Rightarrow> sweepOver body keep ts best
      | Inr (Some c) \<Rightarrow> sweepOver body keep ts (if keep c best then Some c else best))"

definition candidates :: "(number \<Rightarrow> js_error + Candidate option) \<Rightarrow> real list \<Rightarrow> Candidate list" where
  "candidates body ts =
     concat (map (\<lambda>t. case body (Num t) of Inr (Some c) \<Rightarrow> [c] | _ \<Rightarrow> []) ts)"

definition keepAll ::
  "(Candidate \<Rightarrow> Candidate option \<Rightarrow> bool) \<Rightarrow> Candidate list \<Rightarrow> Candidate option" where
  "keepAll keep cs = foldl (\<lambda>best c. if keep c best then Some c else best) None cs"

text \<open>
  \<open>firstBest cs k\<close>: no candidate of \<open>cs\<close> has an error below that of candidate
  \<open>k\<close>, and no candidate before \<open>k\<close> has an error below or equal to it.  The
  comparisons are JavaScript's.  When the errors are reals, \<open>k\<close> is the first position of
  the smallest error; a candidate whose error is NaN has the property for the only reason
  that every comparison with NaN is false.
\<close>

definition firstBest :: "Candidate list \<Rightarrow> nat \<Rightarrow> bool" where
  "firstBest cs k =
     (k < length cs
      \<and> (\<forall>j<k. \<not> error (cs ! j) \<le> error (cs ! k))
      \<and> (\<forall>j<length cs. \<not> error (cs ! j) < error (cs ! k)))"

text \<open>
  The candidates of the two sweeps of \<^verbatim>\<open>calculateInverseKinematics\<close> for a
  three-joint configuration and a target, and the result the function builds from them.
\<close>

definition downCandidates :: "RobotConfig \<Rightarrow> number \<times> number \<times> number \<Rightarrow> Candidate list" where
  "downCandidates cfg targetPosition =
     (case targetPosition of (x, y, z) \<Rightarrow>
        candidates
          (elbowDownCandidate (new_RobotKinematics cfg) x y z
             (a (dhParameters cfg ! 0)) (a (dhParameters cfg ! 1)) (a (dhParameters cfg ! 2))
             (d (dhParameters cfg ! 0)) (d (dhParameters cfg ! 1)))
          sweepAngles)"

definition upCandidates ::
  "RobotConfig \<Rightarrow> number \<times> number \<times> number \<Rightarrow> number \<Rightarrow> Candidate list" where
  "upCandidates cfg targetPosition invertedTheta3 =
     (case targetPosition of (x, y, z) \<Rightarrow>
        candidates
          (elbowUpCandidate (new_RobotKinematics cfg) x y z
             (a (dhParameters cfg ! 0)) (a (dhParameters cfg ! 1)) (a (dhParameters cfg ! 2))
             (d (dhParameters cfg ! 0)) (d (dhParameters cfg ! 1)) invertedTheta3)
          sweepAngles)"

definition ikOutcome :: "RobotConfig \<Rightarrow> number \<times> number \<times> number \<Rightarrow> IKResult" where
  "ikOutcome cfg targetPosition =
     (case keepAll keepElbowDown (downCandidates cfg targetPosition) of
        None \<Rightarrow> \<lparr>solutions = [], valid = False\<rparr>
      | Some b \<Rightarrow>
          (case keepAll keepElbowUp (upCandidates cfg targetPosition (- (solution b ! 2))) of
             None \<Rightarrow> \<lparr>solutions = [solution b], valid = True\<rparr>
           | Some u \<Rightarrow> \<lparr>solutions = [solution b, solution u], valid = True\<rparr>))"

subsection \<open>Configurations of the repository\<close>

text \<open>
  \<open>robotWith\<close> completes a list of DH parameters to a configuration the way the tests and
  the examples of the repository do: every joint revolute, limits \<open>\<plusminus>\<pi>\<close>, no offsets.
  \<open>testRobot\<close> is the robot of \<^verbatim>\<open>RobotKinematics.test.ts\<close>, \<open>threeDOFConfig\<close> and
  \<open>staubliRX90B\<close> are the robots of the example script, \<open>scenarioA\<close> is the chain of the
  first forward-kinematics test, and \<open>equalLinks\<close> has three links of length 1/2.
\<close>

definition origin :: Point3D where
  "origin = \<lparr>px = Num 0, py = Num 0, pz = Num 0\<rparr>"

definition robotWith :: "DHParameters list \<Rightarrow> RobotConfig" where
  "robotWith ps =
     \<lparr>name = ''Test Robot'', description = ''Test robot for unit tests'',
      dhParameters = ps,
      jointLimits = map (\<lambda>p. \<lparr>min_limit = Num (- pi), max_limit = Num pi\<rparr>) ps,
      jointTypes = map (\<lambda>p. Revolute) ps,
      baseOffset = origin, toolOffset = origin\<rparr>"

definition testRobot :: RobotConfig where
  "testRobot = robotWith
     [\<lparr>theta = Num 0, d = Num 0, a = Num (3 / 10), alpha = Num (- (pi / 2))\<rparr>,
      \<lparr>theta = Num 0, d = Num 0, a = Num (3 / 10), alpha = Num (- (pi / 2))\<rparr>,
      \<lparr>theta = Num 0, d = Num 0, a = Num (3 / 10), alpha = Num 0\<rparr>]"

definition threeDOFConfig :: RobotConfig where
  "threeDOFConfig = robotWith
     [\<lparr>theta = Num 0, d = Num (325 / 1000), a = Num (225 / 1000), alpha = Num (- (pi / 2))\<rparr>,
      \<lparr>theta = Num 0, d = Num 0, a = Num (735 / 1000), alpha = Num 0\<rparr>,
      \<lparr>theta = Num 0, d = Num 0, a = Num (175 / 1000), alpha = Num 0\<rparr>]"

definition staubliRX90B :: RobotConfig where
  "staubliRX90B = robotWith
     [\<lparr>theta = Num 0, d = Num (325 / 1000), a = Num (225 / 1000), alpha = Num (- (pi / 2))\<rparr>,
      \<lparr>theta = Num 0, d = Num 0, a = Num (735 / 1000), alpha = Num 0\<rparr>,
      \<lparr>theta = Num 0, d = Num 0, a = Num (175 / 1000), alpha = Num 0\<rparr>,
      \<lparr>theta = Num 0, d = Num (775 / 1000), a = Num 0, alpha = Num (- (pi / 2))\<rparr>,
      \<lparr>theta = Num 0, d = Num 0, a = Num 0, alpha = Num (pi / 2)\<rparr>,
      \<lparr>theta = Num 0, d = Num (1 / 10), a = Num 0, alpha = Num 0\<rparr>]"

definition scenarioA :: RobotConfig where
  "scenarioA = robotWith
     [\<lparr>theta = Num 0, d = Num (1 / 10), a = Num (2 / 10), alpha = Num 0\<rparr>,
      \<lparr>theta = Num 0, d = Num 0, a = Num (3 / 10), alpha = Num (pi / 2)\<rparr>,
      \<lparr>theta = Num 0, d = Num 0, a = Num (2 / 10), alpha = Num 0\<rparr>]"

definition equalLinks :: RobotConfig where
  "equalLinks = robotWith
     [\<lparr>theta = Num 0, d = Num 0, a = Num (1 / 2), alpha = Num 0\<rparr>,
      \<lparr>theta = Num 0, d = Num 0, a = Num (1 / 2), alpha = Num 0\<rparr>,
      \<lparr>theta = Num 0, d = Num 0, a = Num (1 / 2), alpha = Num 0\<rparr>]"

text \<open>
  \<open>prismaticRobot\<close> is the three-joint robot of the example script with every joint
  declared prismatic, and \<open>hugeLinks\<close> has link lengths \<open>2\<^sup>5\<^sup>3\<close>, 1 and 1.
\<close>

definition prismaticRobot :: RobotConfig where
  "prismaticRobot = threeDOFConfig\<lparr>jointTypes := [Prismatic, Prismatic, Prismatic]\<rparr>"

definition hugeLinks :: RobotConfig where
  "hugeLinks = robotWith
     [\<lparr>theta = Num 0, d = Num 0, a = Num (2 ^ 53), alpha = Num 0\<rparr>,
      \<lparr>theta = Num 0, d = Num 0, a = Num 1, alpha = Num 0\<rparr>,
      \<lparr>theta = Num 0, d = Num 0, a = Num 1, alpha = Num 0\<rparr>]"

section \<open>Properties\<close>

declare string_of_nat.simps [simp del]

declare sweep.simps [simp del]

subsection \<open>Arithmetic\<close>

lemma number_minus_Num [simp]: "Num u - Num v = Num (u - v)"
  by (simp add: minus_number_def)

lemma number_le_less_trans: "(u::number) \<le> v \<Longrightarrow> v < w \<Longrightarrow> u \<le> w"
  by (cases u; cases v; cases w) simp_all

lemma number_le_less_trans': "(u::number) \<le> v \<Longrightarrow> v < w \<Longrightarrow> u < w"
  by (cases u; cases v; cases w) simp_all

lemma number_less_trans: "(u::number) < v \<Longrightarrow> v < w \<Longrightarrow> u < w"
  by (cases u; cases v; cases w) simp_all

lemma number_less_not_le: "(u::number) < v \<Longrightarrow> \<not> v \<le> u"
  by (cases u; cases v) simp_all

lemma number_less_irrefl: "\<not> (u::number) < u"
  by (cases u) simp_all

lemma number_not_less_NaN: "\<not> (u::number) < NaN"
  by (cases u) simp_all

lemma upt3: "[0 ..< 3] = [0, 1, 2]"
  by (simp add: upt_rec)

lemma upt4: "[0 ..< 4] = [0, 1, 2, 3]"
  by (simp add: upt_rec)


lemma sqrt_81_100: "sqrt (81 / 100) = 9 / 10"
  by (rule real_sqrt_unique) (simp_all add: power2_eq_square)

lemma sqrt_81_1600: "sqrt (81 / 1600) = 9 / 40"
  by (rule real_sqrt_unique) (simp_all add: power2_eq_square)


subsection \<open>The transform of one joint\<close>

text \<open>
  Claim C2.  For every joint (\<open>theta\<close>, \<open>d\<close>, \<open>a\<close>, \<open>alpha\<close>) and every joint
  variable \<open>v\<close>, \<^verbatim>\<open>calculateDHTransform\<close> returns the standard Denavit-Hartenberg matrix
  for the angle \<open>theta + v\<close>; it is a total function and has no failure.  The first
  equation holds for all numbers, the second reads it on the reals.
\<close>

theorem calculateDHTransform_matrix:
  "calculateDHTransform \<lparr>theta = t0, d = offs, a = len, alpha = tw\<rparr> v =
     [[Math_cos (t0 + v), - Math_sin (t0 + v) * Math_cos tw, Math_sin (t0 + v) * Math_sin tw,
         len * Math_cos (t0 + v)],
      [Math_sin (t0 + v), Math_cos (t0 + v) * Math_cos tw, - Math_cos (t0 + v) * Math_sin tw,
         len * Math_sin (t0 + v)],
      [Num 0, Math_sin tw, Math_cos tw, offs],
      [Num 0, Num 0, Num 0, Num 1]]
   \<and> calculateDHTransform \<lparr>theta = Num r0, d = Num ro, a = Num rl, alpha = Num rt\<rparr> (Num rv) =
     [[Num (cos (r0 + rv)), Num (- sin (r0 + rv) * cos rt), Num (sin (r0 + rv) * sin rt),
         Num (rl * cos (r0 + rv))],
      [Num (sin (r0 + rv)), Num (cos (r0 + rv) * cos rt), Num (- cos (r0 + rv) * sin rt),
         Num (rl * sin (r0 + rv))],
      [Num 0, Num (sin rt), Num (cos rt), Num ro],
      [Num 0, Num 0, Num 0, Num 1]]"
  by (simp add: calculateDHTransform_def Let_def)

theorem calculateDHTransform_matrix_witness:
  "calculateDHTransform \<lparr>theta = Num 0, d = Num 0, a = Num (3 / 10), alpha = Num (pi / 2)\<rparr> (Num 0) =
     [[Num 1, Num 0, Num 0, Num (3 / 10)],
      [Num 0, Num 0, Num (- 1), Num 0],
      [Num 0, Num 1, Num 0, Num 0],
      [Num 0, Num 0, Num 0, Num 1]]"
  using calculateDHTransform_matrix [of "Num 0" "Num 0" "Num (3 / 10)" "Num (pi / 2)" "Num 0"]
  by simp

lemma is4x4_DH: "is4x4 (calculateDHTransform params jointAngle)"
  by (simp add: is4x4_def calculateDHTransform_def Let_def)

lemma ncols_4x4: "is4x4 m \<Longrightarrow> ncols m = 4"
  by (cases m) (auto simp: is4x4_def ncols_def)

lemma nrows_4x4: "is4x4 m \<Longrightarrow> nrows m = 4"
  by (simp add: is4x4_def nrows_def)

lemma multiply_4x4: "is4x4 m1 \<Longrightarrow> is4x4 m2 \<Longrightarrow> multiply m1 m2 = Inr (matmul m1 m2)"
  by (simp add: multiply_def matmul_def ncols_4x4 nrows_4x4)

lemma is4x4_matmul: "is4x4 m1 \<Longrightarrow> is4x4 m2 \<Longrightarrow> is4x4 (matmul m1 m2)"
  by (simp add: matmul_def ncols_4x4 is4x4_def list_all_iff)

lemma matmul_4x4_rows:
  "matmul [r0, r1, r2, r3] [[b00, b01, b02, b03], [b10, b11, b12, b13], [b20, b21, b22, b23], [b30, b31, b32, b33]]
     = map (\<lambda>row. [dot row [b00, b10, b20, b30], dot row [b01, b11, b21, b31],
                      dot row [b02, b12, b22, b32], dot row [b03, b13, b23, b33]]) [r0, r1, r2, r3]"
  by (simp add: matmul_def column_def ncols_def upt4)

lemma dot4: "dot [u0, u1, u2, u3] [v0, v1, v2, v3] = u0 * v0 + u1 * v1 + u2 * v2 + u3 * v3"
  by (simp add: dot_def)

subsection \<open>Forward kinematics\<close>

lemma frame_append: "i < length ts \<Longrightarrow> frame (ts @ us) i = frame ts i"
  by (induction i) (simp_all add: nth_append)

lemma is4x4_frame: "list_all is4x4 ts \<Longrightarrow> i < length ts \<Longrightarrow> is4x4 (frame ts i)"
  by (induction i) (simp_all add: list_all_length is4x4_matmul)

lemma reduce_from_snoc:
  "reduce_from f acc (ts @ [t]) =
     (case reduce_from f acc ts of Inl e \<Rightarrow> Inl e | Inr m \<Rightarrow> f m t)"
  by (induction ts arbitrary: acc) (simp_all split: sum.splits)

lemma reduce_from_frame:
  "list_all is4x4 (t # ts) \<Longrightarrow> reduce_from multiply t ts = Inr (frame (t # ts) (length ts))"
proof (induction ts rule: rev_induct)
  case Nil
  then show ?case by simp
next
  case (snoc u us)
  then have all: "list_all is4x4 (t # us)" and u: "is4x4 u" by simp_all
  have prev: "reduce_from multiply t us = Inr (frame (t # us) (length us))"
    using snoc.IH [OF all] .
  have fr: "frame (t # us @ [u]) (length us) = frame (t # us) (length us)"
    using frame_append [of "length us" "t # us" "[u]"] by simp
  have "is4x4 (frame (t # us) (length us))"
    using is4x4_frame [OF all, of "length us"] by simp
  then show ?case
    using prev u fr by (simp add: reduce_from_snoc multiply_4x4 nth_append)
qed

lemma transforms_eq:
  "map (\<lambda>(params, i). calculateDHTransform params (ja ! i)) (zip ps [0 ..< length ps])
     = map (\<lambda>i. calculateDHTransform (ps ! i) (ja ! i)) [0 ..< length ps]"
  by (rule nth_equalityI) simp_all

lemma get_4x4: "is4x4 m \<Longrightarrow> i < 4 \<Longrightarrow> j < 4 \<Longrightarrow> get m i j = Inr (m ! i ! j)"
  by (simp add: get_def ncols_4x4 nrows_4x4)

lemma subset_4x4:
  "is4x4 m \<Longrightarrow> subset m [0, 1, 2] [0, 1, 2]
     = Inr [[m ! 0 ! 0, m ! 0 ! 1, m ! 0 ! 2],
            [m ! 1 ! 0, m ! 1 ! 1, m ! 1 ! 2],
            [m ! 2 ! 0, m ! 2 ! 1, m ! 2 ! 2]]"
  by (simp add: subset_def ncols_4x4 nrows_4x4)

lemma forward_kinematics_frame:
  assumes ne: "dhParameters cfg \<noteq> []"
    and len: "length ja = length (dhParameters cfg)"
  shows "calculateForwardKinematics (new_RobotKinematics cfg) ja
           = Inr (poseOf (frame (jointTransforms cfg ja) (length (dhParameters cfg) - 1)))"
proof -
  let ?ts = "jointTransforms cfg ja"
  have all: "list_all is4x4 ?ts"
    by (simp add: jointTransforms_def list_all_iff is4x4_DH)
  from ne have lts: "length ?ts = Suc (length (dhParameters cfg) - 1)"
    by (cases "dhParameters cfg") (simp_all add: jointTransforms_def)
  then obtain t rest where ts: "?ts = t # rest" and lrest: "length rest = length (dhParameters cfg) - 1"
    by (cases ?ts) auto
  define T where "T = frame ?ts (length (dhParameters cfg) - 1)"
  have red: "reduce multiply ?ts = Inr T"
    using reduce_from_frame [of t rest] all ts lrest by (simp add: reduce_def T_def)
  have f4: "is4x4 T"
    unfolding T_def using is4x4_frame [OF all, of "length (dhParameters cfg) - 1"] lts by simp
  have g: "get T 0 3 = Inr (T ! 0 ! 3)" "get T 1 3 = Inr (T ! 1 ! 3)" "get T 2 3 = Inr (T ! 2 ! 3)"
    using f4 by (simp_all add: get_4x4)
  have "calculateForwardKinematics (new_RobotKinematics cfg) ja = Inr (poseOf T)"
    using len red
    by (simp add: calculateForwardKinematics_def new_RobotKinematics_def transforms_eq
        jointTransforms_def [symmetric] g subset_4x4 [OF f4] poseOf_def del: One_nat_def)
  then show ?thesis by (simp add: T_def)
qed

lemma forward_kinematics_3:
  assumes "length (dhParameters cfg) = 3"
  shows "calculateForwardKinematics (new_RobotKinematics cfg) [u, v, w] \<noteq> Inl e"
proof -
  from assms have "dhParameters cfg \<noteq> []" by auto
  from forward_kinematics_frame [OF this, of "[u, v, w]"] assms show ?thesis by simp
qed

lemma scenA_ts: "jointTransforms scenarioA [Num 0, Num 0, Num 0] =
   [[[Num 1, Num 0, Num 0, Num (2 / 10)], [Num 0, Num 1, Num 0, Num 0], [Num 0, Num 0, Num 1, Num (1 / 10)], [Num 0, Num 0, Num 0, Num 1]],
    [[Num 1, Num 0, Num 0, Num (3 / 10)], [Num 0, Num 0, Num (- 1), Num 0], [Num 0, Num 1, Num 0, Num 0], [Num 0, Num 0, Num 0, Num 1]],
    [[Num 1, Num 0, Num 0, Num (2 / 10)], [Num 0, Num 1, Num 0, Num 0], [Num 0, Num 0, Num 1, Num 0], [Num 0, Num 0, Num 0, Num 1]]]"
  by (simp add: scenarioA_def robotWith_def jointTransforms_def calculateDHTransform_def upt3 Let_def)

text \<open>
  Claim C1.  For a configuration with at least one joint and as many joint angles as
  joints, \<^verbatim>\<open>calculateForwardKinematics\<close> builds one transform per joint from that joint's
  commanded angle, multiplies them from the left in joint order, and returns the pose whose
  position is rows 0-2 of column 3 and whose orientation is the top-left 3\<times>3 block of the
  product.
\<close>

theorem forward_kinematics_composes:
  assumes "dhParameters cfg \<noteq> []"
    and "length jointAngles = length (dhParameters cfg)"
  shows "length (jointTransforms cfg jointAngles) = length (dhParameters cfg)
     \<and> (\<forall>i<length (dhParameters cfg).
           jointTransforms cfg jointAngles ! i
             = calculateDHTransform (dhParameters cfg ! i) (jointAngles ! i))
     \<and> calculateForwardKinematics (new_RobotKinematics cfg) jointAngles
           = Inr (poseOf (frame (jointTransforms cfg jointAngles) (length (dhParameters cfg) - 1)))"
  using forward_kinematics_frame [OF assms] by (simp add: jointTransforms_def)

text \<open>
  The chain of the repository's first test at the angles \<open>[0, 0, 0]\<close>: the position is
  \<open>(0.7, 0, 0.1)\<close>.
\<close>

theorem forward_kinematics_composes_witness:
  "dhParameters scenarioA \<noteq> []
   \<and> length [Num 0, Num 0, Num 0] = length (dhParameters scenarioA)
   \<and> calculateForwardKinematics (new_RobotKinematics scenarioA) [Num 0, Num 0, Num 0]
       = Inr \<lparr>position = (Num (7 / 10), Num 0, Num (1 / 10)),
              orientation = [[Num 1, Num 0, Num 0], [Num 0, Num 0, Num (- 1)], [Num 0, Num 1, Num 0]]\<rparr>"
proof -
  have three: "length (dhParameters scenarioA) = 3" and ne: "dhParameters scenarioA \<noteq> []"
    by (simp_all add: scenarioA_def robotWith_def)
  have two: "(2::nat) = Suc (Suc 0)" by simp
  show ?thesis
    using forward_kinematics_composes [of scenarioA "[Num 0, Num 0, Num 0]"] three ne
    by (simp add: scenA_ts two matmul_4x4_rows dot4 poseOf_def)
qed

text \<open>
  Claim C7.  With \<open>N\<close> joints and \<open>M \<noteq> N\<close> joint angles,
  \<^verbatim>\<open>calculateForwardKinematics\<close> throws the error whose message is
  \<^verbatim>\<open>Expected N joint angles, got M\<close>; the error is the result of the call.
\<close>

theorem forward_kinematics_wrong_count:
  assumes "length jointAngles \<noteq> length (dhParameters cfg)"
  shows "calculateForwardKinematics (new_RobotKinematics cfg) jointAngles
           = Inl (Error (''Expected '' @ string_of_nat (length (dhParameters cfg))
                          @ '' joint angles, got '' @ string_of_nat (length jointAngles)))"
  using assms by (simp add: calculateForwardKinematics_def new_RobotKinematics_def)

theorem forward_kinematics_wrong_count_witness:
  "length [Num 0, Num 0] \<noteq> length (dhParameters scenarioA)
   \<and> calculateForwardKinematics (new_RobotKinematics scenarioA) [Num 0, Num 0]
       = Inl (Error ''Expected 3 joint angles, got 2'')"
  using forward_kinematics_wrong_count [of "[Num 0, Num 0]" scenarioA]
  by (simp add: scenarioA_def robotWith_def string_of_nat.simps digit_char_def)

text \<open>
  Claim C10.  With no joint at all, the empty list of joint angles passes the length check
  and \<^verbatim>\<open>calculateForwardKinematics\<close> still throws: \<^verbatim>\<open>reduce\<close> is called on the empty list
  of transforms without an initial value.
\<close>

theorem forward_kinematics_no_joints:
  assumes "dhParameters cfg = []"
  shows "length ([] :: number list) = numJoints (new_RobotKinematics cfg)
     \<and> calculateForwardKinematics (new_RobotKinematics cfg) []
           = Inl (TypeError ''Reduce of empty array with no initial value'')"
  using assms by (simp add: calculateForwardKinematics_def new_RobotKinematics_def reduce_def)

theorem forward_kinematics_no_joints_witness:
  "dhParameters (robotWith []) = []
   \<and> calculateForwardKinematics (new_RobotKinematics (robotWith [])) []
       = Inl (TypeError ''Reduce of empty array with no initial value'')"
  using forward_kinematics_no_joints [of "robotWith []"] by (simp add: robotWith_def)

subsection \<open>The workspace radius\<close>


text \<open>
  One rounded addition of two numbers whose sum is at most 2048 in magnitude is within
  \<open>2\<^sup>-\<^sup>4\<^sup>2\<close> of the exact sum, and does not overflow.
\<close>

lemma round_half_even_error: "\<bar>of_int (round_half_even q) - q\<bar> \<le> 1 / 2"
  unfolding round_half_even_def Let_def by (auto; linarith)

lemma floor_log2:
  assumes "2 ^ n \<le> x" and "x < 2 ^ Suc n"
  shows "\<lfloor>log 2 x\<rfloor> = int n"
proof (rule floor_unique)
  have pos: "0 < x" using assms(1) by (meson less_le_trans zero_less_numeral zero_less_power)
  show "of_int (int n) \<le> log 2 x"
    using assms(1) pos by (simp add: le_log_iff powr_realpow)
  have pw: "(2::real) powr real (Suc n) = 2 ^ Suc n"
    by (rule powr_realpow) simp
  have "log 2 x < real (Suc n) \<longleftrightarrow> x < 2 powr real (Suc n)"
    using pos by (intro log_less_iff) simp_all
  then have "log 2 x < real (Suc n)"
    using assms(2) by (simp only: pw)
  then show "log 2 x < of_int (int n) + 1" by simp
qed

lemma double_of_small:
  assumes "\<bar>z\<bar> \<le> 2048"
  shows "\<exists>y. double_of z = Num y \<and> \<bar>y - z\<bar> \<le> 1 / 2 ^ 42"
proof (cases "z = 0")
  case True
  then show ?thesis by (simp add: double_of_def)
next
  case False
  define e where "e = max \<lfloor>log 2 \<bar>z\<bar>\<rfloor> (- 1022)"
  define ulp where "ulp = (2::real) powr (of_int e - 52)"
  define y where "y = of_int (round_half_even (z / ulp)) * ulp"
  have pos: "0 < \<bar>z\<bar>" using False by simp
  have "log 2 \<bar>z\<bar> \<le> 11"
  proof -
    have "\<bar>z\<bar> \<le> 2 powr 11" using assms by simp
    then show ?thesis using pos by (simp add: log_le_iff)
  qed
  then have "\<lfloor>log 2 \<bar>z\<bar>\<rfloor> \<le> 11" by (simp add: floor_le_iff)
  then have e11: "e \<le> 11" by (simp add: e_def)
  have ulp_pos: "0 < ulp" by (simp add: ulp_def)
  have "ulp \<le> 2 powr (- 41)"
    unfolding ulp_def using e11 by (intro powr_mono) simp_all
  also have "(2::real) powr (- 41) = 1 / 2 ^ 41"
    by (simp add: powr_minus_divide)
  finally have ulp_le: "ulp \<le> 1 / 2 ^ 41" .
  have "\<bar>of_int (round_half_even (z / ulp)) - z / ulp\<bar> \<le> 1 / 2"
    by (rule round_half_even_error)
  then have "\<bar>of_int (round_half_even (z / ulp)) - z / ulp\<bar> * ulp \<le> 1 / 2 * ulp"
    using ulp_pos by (intro mult_right_mono) simp_all
  moreover have "\<bar>of_int (round_half_even (z / ulp)) - z / ulp\<bar> * ulp = \<bar>y - z\<bar>"
  proof -
    have "\<bar>of_int (round_half_even (z / ulp)) - z / ulp\<bar> * ulp
            = \<bar>(of_int (round_half_even (z / ulp)) - z / ulp) * ulp\<bar>"
      using ulp_pos by (simp add: abs_mult)
    also have "(of_int (round_half_even (z / ulp)) - z / ulp) * ulp = y - z"
      using ulp_pos by (simp add: y_def algebra_simps)
    finally show ?thesis .
  qed
  ultimately have err: "\<bar>y - z\<bar> \<le> 1 / 2 ^ 42"
    using ulp_le by simp
  have "\<bar>y\<bar> \<le> \<bar>z\<bar> + \<bar>y - z\<bar>" by simp
  also have "\<dots> \<le> 2048 + 1" using assms err by (simp add: add_mono)
  also have "\<dots> < (2::real) ^ 1024" by simp
  finally have no_overflow: "\<not> 2 ^ 1024 \<le> \<bar>y\<bar>" by simp
  have "double_of z = Num y"
    using False no_overflow
    by (simp add: double_of_def Let_def e_def [symmetric] ulp_def [symmetric] y_def [symmetric])
  with err show ?thesis by blast
qed

lemma double_add_small:
  assumes "\<bar>f + l\<bar> \<le> 2048"
  shows "\<exists>y. double_add (Num f) (Num l) = Num y \<and> \<bar>y - (f + l)\<bar> \<le> 1 / 2 ^ 42"
  using double_of_small [OF assms] by simp

lemma foldl_double_add:
  assumes "map a ps = map Num ls"
    and "\<bar>f - s\<bar> \<le> real k / 2 ^ 42"
    and "\<bar>s\<bar> + (\<Sum>x\<leftarrow>ls. \<bar>x\<bar>) \<le> 1000"
    and "k + length ls \<le> 100"
  shows "\<exists>r. foldl (\<lambda>sum params. double_add sum (a params)) (Num f) ps = Num r
           \<and> \<bar>r - (s + sum_list ls)\<bar> \<le> real (k + length ls) / 2 ^ 42"
  using assms
proof (induction ps arbitrary: ls f s k)
  case Nil
  then show ?case by simp
next
  case (Cons p ps)
  from Cons.prems(1) obtain l ls' where ls: "ls = l # ls'" and l: "a p = Num l"
    and rest: "map a ps = map Num ls'"
    by (cases ls) auto
  have k100: "real k \<le> 100" using Cons.prems(4) by simp
  have "real k / 2 ^ 42 \<le> 100 / 2 ^ 42" using k100 by (simp add: divide_right_mono)
  then have fs: "\<bar>f - s\<bar> \<le> 1" using Cons.prems(2) by simp
  have nonneg: "0 \<le> (\<Sum>x\<leftarrow>ls'. \<bar>x\<bar>)" by (rule sum_list_nonneg) auto
  have sl: "\<bar>s\<bar> + \<bar>l\<bar> \<le> 1000" using Cons.prems(3) nonneg by (simp add: ls)
  have "\<bar>f + l\<bar> \<le> \<bar>f - s\<bar> + (\<bar>s\<bar> + \<bar>l\<bar>)" by simp
  then have small: "\<bar>f + l\<bar> \<le> 2048" using fs sl by simp
  from double_add_small [OF small] obtain y where y: "double_add (Num f) (Num l) = Num y"
    and ye: "\<bar>y - (f + l)\<bar> \<le> 1 / 2 ^ 42" by blast
  have "\<bar>y - (s + l)\<bar> \<le> \<bar>y - (f + l)\<bar> + \<bar>f - s\<bar>" by simp
  also have "\<dots> \<le> 1 / 2 ^ 42 + real k / 2 ^ 42" using ye Cons.prems(2) by simp
  also have "\<dots> = real (Suc k) / 2 ^ 42" by (simp add: add_divide_distrib)
  finally have inv: "\<bar>y - (s + l)\<bar> \<le> real (Suc k) / 2 ^ 42" .
  have bound: "\<bar>s + l\<bar> + (\<Sum>x\<leftarrow>ls'. \<bar>x\<bar>) \<le> 1000"
  proof -
    have "\<bar>s + l\<bar> \<le> \<bar>s\<bar> + \<bar>l\<bar>" by simp
    then show ?thesis using Cons.prems(3) by (simp add: ls)
  qed
  have count: "Suc k + length ls' \<le> 100" using Cons.prems(4) by (simp add: ls)
  from Cons.IH [OF rest inv bound count] obtain r
    where r: "foldl (\<lambda>sum params. double_add sum (a params)) (Num y) ps = Num r"
      and re: "\<bar>r - (s + l + sum_list ls')\<bar> \<le> real (Suc k + length ls') / 2 ^ 42" by blast
  from y have y': "double_of (f + l) = Num y" by simp
  show ?case
    using r re by (simp add: ls l y' add.assoc)
qed

lemma double_of_2_53: "double_of (2 ^ 53) = Num (2 ^ 53)"
proof -
  have e: "\<lfloor>log 2 \<bar>2 ^ 53 :: real\<bar>\<rfloor> = 53"
    using floor_log2 [of 53 "2 ^ 53"] by simp
  have ulp: "(2::real) powr (of_int 53 - 52) = 2" by simp
  have r: "round_half_even 4503599627370496 = 4503599627370496"
    by (simp add: round_half_even_def)
  show ?thesis
    unfolding double_of_def Let_def e by (simp add: r)
qed

lemma double_of_2_53_plus_1: "double_of (2 ^ 53 + 1) = Num (2 ^ 53)"
proof -
  have e: "\<lfloor>log 2 \<bar>2 ^ 53 + 1 :: real\<bar>\<rfloor> = 53"
    using floor_log2 [of 53 "2 ^ 53 + 1"] by simp
  have r: "round_half_even (9007199254740993 / 2) = 4503599627370496"
    by (simp add: round_half_even_def)
  show ?thesis
    unfolding double_of_def Let_def e by (simp add: r)
qed

lemma double_of_numerals:
  "double_of 9007199254740992 = Num 9007199254740992"
  "double_of 9007199254740993 = Num 9007199254740992"
  using double_of_2_53 double_of_2_53_plus_1 by simp_all

text \<open>
  Claim C9 says that for every configuration \<^verbatim>\<open>getWorkspaceRadius\<close> returns the sum of
  the link lengths within \<open>10\<^sup>-\<^sup>1\<^sup>0\<close> of the exact sum.  The additions are rounded: with
  the link lengths \<open>2\<^sup>5\<^sup>3\<close>, 1 and 1 each addition of 1 is rounded away, the result is
  \<open>2\<^sup>5\<^sup>3\<close>, and the exact sum is 2 more.
\<close>

theorem workspace_radius_rounding_counterexample:
  "map a (dhParameters hugeLinks) = map Num [2 ^ 53, 1, 1]
   \<and> getWorkspaceRadius_double (new_RobotKinematics hugeLinks) = Num (2 ^ 53)
   \<and> \<bar>2 ^ 53 - sum_list [2 ^ 53, 1, 1 :: real]\<bar> = 2
   \<and> \<not> \<bar>2 ^ 53 - sum_list [2 ^ 53, 1, 1 :: real]\<bar> < 1 / 10 ^ 10"
  by (simp add: getWorkspaceRadius_double_def new_RobotKinematics_def hugeLinks_def robotWith_def
      double_of_numerals)

text \<open>
  Claim C9, amended.  For a configuration with at most 100 DH entries whose link lengths
  are finite and have absolute values that add up to at most 1000, \<^verbatim>\<open>getWorkspaceRadius\<close>
  returns a number within \<open>10\<^sup>-\<^sup>1\<^sup>0\<close> of the exact sum of the link lengths \<open>a\<close>; the
  result depends on no other field of the configuration (joint limits, offsets, \<open>d\<close>).
\<close>

theorem workspace_radius_rounded_sum:
  assumes "map a (dhParameters cfg) = map Num ls"
    and "length ls \<le> 100"
    and "(\<Sum>x\<leftarrow>ls. \<bar>x\<bar>) \<le> 1000"
  shows "\<exists>r. getWorkspaceRadius_double (new_RobotKinematics cfg) = Num r
           \<and> \<bar>r - sum_list ls\<bar> < 1 / 10 ^ 10"
proof -
  from foldl_double_add [OF assms(1), of 0 0 0] assms(2,3)
  obtain r where r: "foldl (\<lambda>sum params. double_add sum (a params)) (Num 0) (dhParameters cfg) = Num r"
    and re: "\<bar>r - sum_list ls\<bar> \<le> real (length ls) / 2 ^ 42" by auto
  have "real (length ls) / 2 ^ 42 \<le> 100 / 2 ^ 42"
    using assms(2) by (simp add: divide_right_mono)
  also have "\<dots> < (1::real) / 10 ^ 10" by simp
  finally have "\<bar>r - sum_list ls\<bar> < 1 / 10 ^ 10" using re by simp
  with r show ?thesis
    by (auto simp: getWorkspaceRadius_double_def new_RobotKinematics_def)
qed

text \<open>
  Three links of length 0.3: the result is within \<open>10\<^sup>-\<^sup>1\<^sup>0\<close> of 0.9.
\<close>

theorem workspace_radius_rounded_sum_witness:
  "map a (dhParameters testRobot) = map Num [3 / 10, 3 / 10, 3 / 10]
   \<and> length [3 / 10, 3 / 10, 3 / 10 :: real] \<le> 100
   \<and> (\<Sum>x\<leftarrow>[3 / 10, 3 / 10, 3 / 10 :: real]. \<bar>x\<bar>) \<le> 1000
   \<and> (\<exists>r. getWorkspaceRadius_double (new_RobotKinematics testRobot) = Num r
          \<and> \<bar>r - 9 / 10\<bar> < 1 / 10 ^ 10)"
proof -
  have m: "map a (dhParameters testRobot) = map Num [3 / 10, 3 / 10, 3 / 10]"
    by (simp add: testRobot_def robotWith_def)
  from workspace_radius_rounded_sum [OF m] m show ?thesis by simp
qed

subsection \<open>The sweeps\<close>

text \<open>
  With exact additions a loop of the solver visits the 360 angles of \<open>sweepAngles\<close>;
  its body never throws on a three-joint robot, so the loop returns what it keeps of the
  candidates.
\<close>

lemma sweep_from:
  "k \<le> 360 \<Longrightarrow>
     sweep body keep (real k * stepSize) best
       = sweepOver body keep (map (\<lambda>i. real i * stepSize) [k ..< 360]) best"
proof (induction "360 - k" arbitrary: k best)
  case 0
  then have k: "k = 360" by simp
  have "real k * stepSize = 2 * pi" by (simp add: k stepSize_def)
  then show ?case
    by (subst sweep.simps) (simp add: Math_PI_def k)
next
  case (Suc n)
  then have lt: "k < 360" and n: "n = 360 - Suc k" and le: "Suc k \<le> 360" by simp_all
  have "real k * stepSize < 2 * pi"
    using lt by (simp add: stepSize_def)
  then have cond: "Num (real k * stepSize) < Num 2 * Math_PI"
    by (simp add: Math_PI_def)
  have next_angle: "real k * stepSize + stepSize = real (Suc k) * stepSize"
    by (simp add: algebra_simps)
  have IH: "sweep body keep (real (Suc k) * stepSize) b
              = sweepOver body keep (map (\<lambda>i. real i * stepSize) [Suc k ..< 360]) b" for b
    using Suc.hyps(1) [OF n le] .
  have upt: "[k ..< 360] = k # [Suc k ..< 360]"
    using lt by (simp add: upt_conv_Cons)
  show ?case
    by (subst sweep.simps) (simp only: cond if_True next_angle IH upt list.map sweepOver.simps)
qed

lemma sweep_sweepAngles: "sweep body keep 0 best = sweepOver body keep sweepAngles best"
  using sweep_from [of 0 body keep best] by (simp add: sweepAngles_def)

lemma sweepOver_candidates:
  assumes "\<And>t. \<exists>r. body t = Inr r"
  shows "sweepOver body keep ts best
           = Inr (foldl (\<lambda>best c. if keep c best then Some c else best) best (candidates body ts))"
proof (induction ts arbitrary: best)
  case Nil
  then show ?case by (simp add: candidates_def)
next
  case (Cons t ts)
  obtain r where r: "body (Num t) = Inr r" using assms by blast
  show ?case
  proof (cases r)
    case None
    with r Cons show ?thesis by (simp add: candidates_def)
  next
    case (Some c)
    with r Cons show ?thesis by (simp add: candidates_def)
  qed
qed

lemma sweep_keepAll:
  assumes "\<And>t. \<exists>r. body t = Inr r"
  shows "sweep body keep 0 None = Inr (keepAll keep (candidates body sweepAngles))"
  by (simp add: sweep_sweepAngles sweepOver_candidates [OF assms] keepAll_def)

lemma candidates_Cons:
  "candidates body (t # ts)
     = (case body (Num t) of Inr (Some c) \<Rightarrow> [c] | _ \<Rightarrow> []) @ candidates body ts"
  by (simp add: candidates_def)

lemma sweepAngles_Cons: "sweepAngles = 0 # map (\<lambda>k. real k * stepSize) [1 ..< 360]"
  by (simp add: sweepAngles_def upt_conv_Cons)

lemma elbowDownCandidate_Inr:
  assumes "length (dhParameters cfg) = 3"
  shows "\<exists>r. elbowDownCandidate (new_RobotKinematics cfg) x y z a1 a2 a3 d1 d2 t = Inr r"
  unfolding elbowDownCandidate_def Let_def
  by (simp add: forward_kinematics_3 [OF assms] split: sum.splits)

lemma elbowUpCandidate_Inr:
  assumes "length (dhParameters cfg) = 3"
  shows "\<exists>r. elbowUpCandidate (new_RobotKinematics cfg) x y z a1 a2 a3 d1 d2 inv3 t = Inr r"
  unfolding elbowUpCandidate_def Let_def
  by (simp add: forward_kinematics_3 [OF assms] split: sum.splits)

text \<open>
  A candidate is the base angle with the two angles computed for it, and its error is the
  distance between the target and the position that forward kinematics gives for it.
\<close>

lemma elbowDownCandidate_error:
  assumes "elbowDownCandidate rk x y z a1 a2 a3 d1 d2 t = Inr (Some c)"
  shows "\<exists>p t2 t3. solution c = [t, t2, t3]
           \<and> calculateForwardKinematics rk (solution c) = Inr p
           \<and> error c = Math_sqrt (Math_pow (fst (position p) - x) 2
                                   + Math_pow (fst (snd (position p)) - y) 2
                                   + Math_pow (snd (snd (position p)) - z) 2)"
  using assms
  by (auto simp: elbowDownCandidate_def Let_def split: if_splits sum.splits)

lemma elbowUpCandidate_error:
  assumes "elbowUpCandidate rk x y z a1 a2 a3 d1 d2 inv3 t = Inr (Some c)"
  shows "\<exists>p t2. solution c = [t, t2, inv3]
           \<and> calculateForwardKinematics rk (solution c) = Inr p
           \<and> error c = Math_sqrt (Math_pow (fst (position p) - x) 2
                                   + Math_pow (fst (snd (position p)) - y) 2
                                   + Math_pow (snd (snd (position p)) - z) 2)"
  using assms
  by (auto simp: elbowUpCandidate_def Let_def split: if_splits sum.splits)

lemma keepAll_snoc:
  "keepAll keep (cs @ [c]) = (if keep c (keepAll keep cs) then Some c else keepAll keep cs)"
  by (simp add: keepAll_def)

lemma keepAll_single: "keepAll keep [c] = (if keep c None then Some c else None)"
  by (simp add: keepAll_def)

lemma keepElbowDown_simps:
  "keepElbowDown c None = True"
  "keepElbowDown c (Some b) = (error c < error b)"
  by (simp_all add: keepElbowDown_def)

lemma keepElbowUp_simps:
  "keepElbowUp c None = (error c < Num (1 / 10))"
  "keepElbowUp c (Some b) = (error c < Num (1 / 10) \<and> error c < error b)"
  by (simp_all add: keepElbowUp_def)

lemma firstBest_snoc_keep:
  assumes fb: "firstBest cs k" and nl: "\<not> error c < error (cs ! k)"
  shows "firstBest (cs @ [c]) k"
proof -
  from fb have k: "k < length cs" by (simp add: firstBest_def)
  have "\<not> error ((cs @ [c]) ! j) < error (cs ! k)" if "j < Suc (length cs)" for j
  proof (cases "j < length cs")
    case True
    then show ?thesis using fb by (simp add: firstBest_def nth_append)
  next
    case False
    with that have "j = length cs" by simp
    then show ?thesis using nl by simp
  qed
  then show ?thesis
    using fb k by (simp add: firstBest_def nth_append)
qed

lemma firstBest_snoc_new:
  assumes before: "\<And>j. j < length cs \<Longrightarrow> \<not> error (cs ! j) \<le> error c"
  shows "firstBest (cs @ [c]) (length cs)"
proof -
  have "\<not> error ((cs @ [c]) ! j) < error c" if "j < Suc (length cs)" for j
  proof (cases "j < length cs")
    case True
    with before [of j] show ?thesis
      by (cases "error (cs ! j)"; cases "error c") (simp_all add: nth_append)
  next
    case False
    with that have "j = length cs" by simp
    then show ?thesis by (simp add: number_less_irrefl)
  qed
  then show ?thesis
    using before by (simp add: firstBest_def nth_append)
qed

lemma firstBest_replaced:
  assumes fb: "firstBest cs k" and lt: "error c < error (cs ! k)" and j: "j < length cs"
  shows "\<not> error (cs ! j) \<le> error c"
proof
  assume le: "error (cs ! j) \<le> error c"
  from fb have k: "k < length cs" by (simp add: firstBest_def)
  consider "j < k" | "j = k" | "k < j" by linarith
  then show False
  proof cases
    case 1
    with fb have "\<not> error (cs ! j) \<le> error (cs ! k)" by (simp add: firstBest_def)
    with number_le_less_trans [OF le lt] show False by simp
  next
    case 2
    with le number_less_not_le [OF lt] show False by simp
  next
    case 3
    from fb j have "\<not> error (cs ! j) < error (cs ! k)" by (simp add: firstBest_def)
    with number_le_less_trans' [OF le lt] show False by simp
  qed
qed

lemma keepAll_elbowDown:
  "(cs = [] \<and> keepAll keepElbowDown cs = None)
   \<or> (\<exists>k. firstBest cs k \<and> keepAll keepElbowDown cs = Some (cs ! k))"
proof (induction cs rule: rev_induct)
  case Nil
  then show ?case by (simp add: keepAll_def)
next
  case (snoc c cs)
  from snoc.IH show ?case
  proof
    assume "cs = [] \<and> keepAll keepElbowDown cs = None"
    then have "firstBest (cs @ [c]) (length cs)"
      and "keepAll keepElbowDown (cs @ [c]) = Some ((cs @ [c]) ! length cs)"
      by (simp_all add: firstBest_def keepAll_single keepElbowDown_simps number_less_irrefl)
    then show ?thesis by blast
  next
    assume "\<exists>k. firstBest cs k \<and> keepAll keepElbowDown cs = Some (cs ! k)"
    then obtain k where fb: "firstBest cs k"
      and kept: "keepAll keepElbowDown cs = Some (cs ! k)" by blast
    from fb have k: "k < length cs" by (simp add: firstBest_def)
    show ?thesis
    proof (cases "error c < error (cs ! k)")
      case True
      have "firstBest (cs @ [c]) (length cs)"
        using firstBest_replaced [OF fb True] by (rule firstBest_snoc_new)
      moreover have "keepAll keepElbowDown (cs @ [c]) = Some ((cs @ [c]) ! length cs)"
        using kept True by (simp add: keepAll_snoc keepElbowDown_simps)
      ultimately show ?thesis by blast
    next
      case False
      have "firstBest (cs @ [c]) k"
        using fb False by (rule firstBest_snoc_keep)
      moreover have "keepAll keepElbowDown (cs @ [c]) = Some ((cs @ [c]) ! k)"
        using kept False k by (simp add: keepAll_snoc keepElbowDown_simps nth_append)
      ultimately show ?thesis by blast
    qed
  qed
qed

lemma keepAll_elbowUp:
  "(list_all (\<lambda>c. \<not> error c < Num (1 / 10)) cs \<and> keepAll keepElbowUp cs = None)
   \<or> (\<exists>k. firstBest cs k \<and> error (cs ! k) < Num (1 / 10)
            \<and> keepAll keepElbowUp cs = Some (cs ! k))"
proof (induction cs rule: rev_induct)
  case Nil
  then show ?case by (simp add: keepAll_def)
next
  case (snoc c cs)
  from snoc.IH show ?case
  proof
    assume none: "list_all (\<lambda>c. \<not> error c < Num (1 / 10)) cs \<and> keepAll keepElbowUp cs = None"
    show ?thesis
    proof (cases "error c < Num (1 / 10)")
      case True
      have "\<not> error (cs ! j) \<le> error c" if "j < length cs" for j
      proof
        assume "error (cs ! j) \<le> error c"
        then have "error (cs ! j) < Num (1 / 10)"
          using True by (rule number_le_less_trans')
        with none that show False by (simp add: list_all_length)
      qed
      then have "firstBest (cs @ [c]) (length cs)" by (rule firstBest_snoc_new)
      moreover have "keepAll keepElbowUp (cs @ [c]) = Some ((cs @ [c]) ! length cs)"
        using none True by (simp add: keepAll_snoc keepElbowUp_simps)
      ultimately show ?thesis using True by (metis nth_append_length)
    next
      case False
      with none show ?thesis by (simp add: keepAll_snoc keepElbowUp_simps)
    qed
  next
    assume "\<exists>k. firstBest cs k \<and> error (cs ! k) < Num (1 / 10)
                 \<and> keepAll keepElbowUp cs = Some (cs ! k)"
    then obtain k where fb: "firstBest cs k" and tol: "error (cs ! k) < Num (1 / 10)"
      and kept: "keepAll keepElbowUp cs = Some (cs ! k)" by blast
    from fb have k: "k < length cs" by (simp add: firstBest_def)
    show ?thesis
    proof (cases "error c < error (cs ! k)")
      case True
      then have ctol: "error c < Num (1 / 10)" using tol by (rule number_less_trans)
      have "firstBest (cs @ [c]) (length cs)"
        using firstBest_replaced [OF fb True] by (rule firstBest_snoc_new)
      moreover have "keepAll keepElbowUp (cs @ [c]) = Some ((cs @ [c]) ! length cs)"
        using kept True ctol by (simp add: keepAll_snoc keepElbowUp_simps)
      ultimately show ?thesis using ctol by (metis nth_append_length)
    next
      case False
      have "firstBest (cs @ [c]) k"
        using fb False by (rule firstBest_snoc_keep)
      moreover have "keepAll keepElbowUp (cs @ [c]) = Some ((cs @ [c]) ! k)"
        using kept False k by (simp add: keepAll_snoc keepElbowUp_simps nth_append)
      moreover have "error ((cs @ [c]) ! k) < Num (1 / 10)"
        using tol k by (simp add: nth_append)
      ultimately show ?thesis by blast
    qed
  qed
qed

text \<open>
  When every error is a real, \<open>firstBest\<close> is the first position of the minimum.
\<close>

lemma firstBest_finite_errors:
  assumes "map error cs = map Num es"
  shows "firstBest cs k \<longleftrightarrow>
           k < length es \<and> (\<forall>j<k. es ! k < es ! j) \<and> (\<forall>j<length es. es ! k \<le> es ! j)"
proof -
  have len: "length cs = length es"
    using assms by (metis length_map)
  have nth: "error (cs ! j) = Num (es ! j)" if "j < length es" for j
    using assms that len by (metis nth_map)
  show ?thesis
    unfolding firstBest_def len
    by (auto simp: nth not_le not_less)
qed

subsection \<open>Inverse kinematics\<close>

lemma inverse_kinematics_sweeps:
  assumes len: "length (dhParameters cfg) = 3"
    and reach: "\<not> Math_sqrt (tx * tx + ty * ty)
                   > a (dhParameters cfg ! 0) + a (dhParameters cfg ! 1) + a (dhParameters cfg ! 2)"
  shows "calculateInverseKinematics (new_RobotKinematics cfg) (tx, ty, tz)
           = Inr (ikOutcome cfg (tx, ty, tz))"
proof -
  have nj: "numJoints (new_RobotKinematics cfg) = 3"
    and cf: "config (new_RobotKinematics cfg) = cfg"
    using len by (simp_all add: new_RobotKinematics_def)
  show ?thesis
    unfolding calculateInverseKinematics_def Let_def
    using reach
    by (simp add: nj cf sweep_keepAll [OF elbowDownCandidate_Inr [OF len]]
        sweep_keepAll [OF elbowUpCandidate_Inr [OF len]] ikOutcome_def downCandidates_def
        upCandidates_def split: option.splits)
qed

lemma inverse_kinematics_cases:
  "calculateInverseKinematics (new_RobotKinematics cfg) (tx, ty, tz)
     = Inr (if length (dhParameters cfg) \<noteq> 3 then \<lparr>solutions = [], valid = False\<rparr>
            else if Math_sqrt (tx * tx + ty * ty)
                      > a (dhParameters cfg ! 0) + a (dhParameters cfg ! 1) + a (dhParameters cfg ! 2)
            then \<lparr>solutions = [], valid = False\<rparr>
            else ikOutcome cfg (tx, ty, tz))"
proof (cases "length (dhParameters cfg) = 3")
  case False
  then show ?thesis
    by (simp add: calculateInverseKinematics_def new_RobotKinematics_def)
next
  case len: True
  show ?thesis
  proof (cases "Math_sqrt (tx * tx + ty * ty)
                  > a (dhParameters cfg ! 0) + a (dhParameters cfg ! 1) + a (dhParameters cfg ! 2)")
    case True
    with len show ?thesis
      by (simp add: calculateInverseKinematics_def new_RobotKinematics_def Let_def)
  next
    case False
    with len inverse_kinematics_sweeps [OF len False, of tz] show ?thesis by simp
  qed
qed

lemma ikOutcome_shape:
  "valid (ikOutcome cfg tp) = (0 < length (solutions (ikOutcome cfg tp)))
   \<and> length (solutions (ikOutcome cfg tp)) \<le> 2"
  by (simp add: ikOutcome_def split: option.splits)

lemma ikOutcome_valid:
  assumes "downCandidates cfg tp \<noteq> []"
  shows "valid (ikOutcome cfg tp)"
  using keepAll_elbowDown [of "downCandidates cfg tp"] assms
  by (auto simp: ikOutcome_def split: option.splits)



text \<open>
  Claim C4.  Whatever the configuration and the target, \<^verbatim>\<open>calculateInverseKinematics\<close>
  returns a result, \<open>valid\<close> holds exactly when there is a solution, and there are at most
  two solutions.
\<close>

theorem inverse_kinematics_result_shape:
  "\<exists>res. calculateInverseKinematics (new_RobotKinematics cfg) targetPosition = Inr res
         \<and> valid res = (0 < length (solutions res))
         \<and> length (solutions res) \<le> 2"
proof -
  obtain tx ty tz where tp: "targetPosition = (tx, ty, tz)" by (cases targetPosition) auto
  show ?thesis
    unfolding tp inverse_kinematics_cases using ikOutcome_shape [of cfg "(tx, ty, tz)"] by simp
qed

theorem inverse_kinematics_result_shape_witness:
  "\<exists>res. calculateInverseKinematics (new_RobotKinematics testRobot)
            (Num (5 / 10), Num (2 / 10), Num (3 / 10)) = Inr res
         \<and> valid res = (0 < length (solutions res))
         \<and> length (solutions res) \<le> 2"
  using inverse_kinematics_result_shape [of testRobot "(Num (5 / 10), Num (2 / 10), Num (3 / 10))"]
  by simp

text \<open>
  The robot of the example script and a target straight above its shoulder, at
  \<open>(0.225, 0, 1.225)\<close>: the first base angle of the sweep gives a candidate.
\<close>

lemma threeDOF_first_candidate:
  "\<exists>c. elbowDownCandidate (new_RobotKinematics threeDOFConfig)
          (Num (225 / 1000)) (Num 0) (Num (1225 / 1000))
          (Num (225 / 1000)) (Num (735 / 1000)) (Num (175 / 1000))
          (Num (325 / 1000)) (Num 0) (Num 0) = Inr (Some c)"
proof -
  have len: "length (dhParameters threeDOFConfig) = 3"
    by (simp add: threeDOFConfig_def robotWith_def)
  show ?thesis
    by (simp add: elbowDownCandidate_def Let_def sqrt_81_100 forward_kinematics_3 [OF len]
        split: sum.splits)
qed

lemma threeDOF_downCandidates:
  "downCandidates threeDOFConfig (Num (225 / 1000), Num 0, Num (1225 / 1000)) \<noteq> []"
proof -
  have ps: "a (dhParameters threeDOFConfig ! 0) = Num (225 / 1000)"
    "a (dhParameters threeDOFConfig ! 1) = Num (735 / 1000)"
    "a (dhParameters threeDOFConfig ! 2) = Num (175 / 1000)"
    "d (dhParameters threeDOFConfig ! 0) = Num (325 / 1000)"
    "d (dhParameters threeDOFConfig ! 1) = Num 0"
    by (simp_all add: threeDOFConfig_def robotWith_def)
  from threeDOF_first_candidate show ?thesis
    unfolding downCandidates_def prod.case ps sweepAngles_Cons candidates_Cons by auto
qed

lemma threeDOF_reach:
  "\<not> Math_sqrt (Num (225 / 1000) * Num (225 / 1000) + Num 0 * Num 0)
       > a (dhParameters threeDOFConfig ! 0) + a (dhParameters threeDOFConfig ! 1)
           + a (dhParameters threeDOFConfig ! 2)"
  by (simp add: threeDOFConfig_def robotWith_def sqrt_81_1600)




subsection \<open>Joint types\<close>

text \<open>
  The engine never reads \<open>jointTypes\<close>: forward and inverse kinematics of a configuration
  are those of the configuration with any other joint types.
\<close>

lemma forward_kinematics_jointTypes:
  "calculateForwardKinematics (new_RobotKinematics (cfg\<lparr>jointTypes := jts\<rparr>))
     = calculateForwardKinematics (new_RobotKinematics cfg)"
  by (intro ext) (simp add: calculateForwardKinematics_def new_RobotKinematics_def)

lemma elbowDownCandidate_jointTypes:
  "elbowDownCandidate (new_RobotKinematics (cfg\<lparr>jointTypes := jts\<rparr>))
     = elbowDownCandidate (new_RobotKinematics cfg)"
  unfolding elbowDownCandidate_def forward_kinematics_jointTypes ..

lemma elbowUpCandidate_jointTypes:
  "elbowUpCandidate (new_RobotKinematics (cfg\<lparr>jointTypes := jts\<rparr>))
     = elbowUpCandidate (new_RobotKinematics cfg)"
  unfolding elbowUpCandidate_def forward_kinematics_jointTypes ..

lemma inverse_kinematics_jointTypes:
  "calculateInverseKinematics (new_RobotKinematics (cfg\<lparr>jointTypes := jts\<rparr>)) tp
     = calculateInverseKinematics (new_RobotKinematics cfg) tp"
proof -
  have nj: "numJoints (new_RobotKinematics (cfg\<lparr>jointTypes := jts\<rparr>))
              = numJoints (new_RobotKinematics cfg)"
    and dh: "dhParameters (config (new_RobotKinematics (cfg\<lparr>jointTypes := jts\<rparr>)))
              = dhParameters (config (new_RobotKinematics cfg))"
    by (simp_all add: new_RobotKinematics_def)
  show ?thesis
    unfolding calculateInverseKinematics_def nj dh elbowDownCandidate_jointTypes
      elbowUpCandidate_jointTypes ..
qed

text \<open>
  Claim C6 says that the solver runs its search only on a configuration with exactly three
  revolute joints.  The robot of the example script with its three joints declared
  prismatic is searched like the original: the target above its shoulder is accepted.
\<close>

theorem three_revolute_joints_counterexample:
  "jointTypes prismaticRobot = [Prismatic, Prismatic, Prismatic]
   \<and> length (dhParameters prismaticRobot) = 3
   \<and> calculateInverseKinematics (new_RobotKinematics prismaticRobot)
         (Num (225 / 1000), Num 0, Num (1225 / 1000))
       \<noteq> Inr \<lparr>solutions = [], valid = False\<rparr>
   \<and> isReachable (new_RobotKinematics prismaticRobot)
         (Num (225 / 1000), Num 0, Num (1225 / 1000)) = Inr True"
proof -
  let ?tp = "(Num (225 / 1000), Num 0, Num (1225 / 1000))"
  have len: "length (dhParameters threeDOFConfig) = 3"
    by (simp add: threeDOFConfig_def robotWith_def)
  have same: "calculateInverseKinematics (new_RobotKinematics prismaticRobot) ?tp
                = calculateInverseKinematics (new_RobotKinematics threeDOFConfig) ?tp"
    unfolding prismaticRobot_def by (rule inverse_kinematics_jointTypes)
  have ik: "calculateInverseKinematics (new_RobotKinematics threeDOFConfig) ?tp
              = Inr (ikOutcome threeDOFConfig ?tp)"
    using inverse_kinematics_sweeps [OF len threeDOF_reach] .
  have v: "valid (ikOutcome threeDOFConfig ?tp)"
    using threeDOF_downCandidates by (rule ikOutcome_valid)
  then have ne: "ikOutcome threeDOFConfig ?tp \<noteq> \<lparr>solutions = [], valid = False\<rparr>"
    by auto
  have types: "jointTypes prismaticRobot = [Prismatic, Prismatic, Prismatic]"
    and plen: "length (dhParameters prismaticRobot) = 3"
    using len by (simp_all add: prismaticRobot_def)
  show ?thesis
    unfolding isReachable_def same ik using types plen ne v by simp
qed

text \<open>
  Claim C6, amended.  The solver searches only on a configuration with exactly three
  joints, whatever their declared types: with any other number of joints
  \<^verbatim>\<open>calculateInverseKinematics\<close> returns the value \<^verbatim>\<open>{solutions: [], valid: false}\<close> and
  throws nothing, and its result never depends on \<open>jointTypes\<close>.
\<close>

theorem inverse_kinematics_joint_count_gate:
  "(length (dhParameters cfg) \<noteq> 3 \<longrightarrow>
      calculateInverseKinematics (new_RobotKinematics cfg) targetPosition
        = Inr \<lparr>solutions = [], valid = False\<rparr>)
   \<and> calculateInverseKinematics (new_RobotKinematics (cfg\<lparr>jointTypes := jts\<rparr>)) targetPosition
       = calculateInverseKinematics (new_RobotKinematics cfg) targetPosition"
  by (simp add: inverse_kinematics_jointTypes)
     (simp add: calculateInverseKinematics_def new_RobotKinematics_def)

text \<open>
  The six-joint robot of the example script, as it is and with every joint declared
  prismatic.
\<close>

theorem inverse_kinematics_joint_count_gate_witness:
  "length (dhParameters staubliRX90B) \<noteq> 3
   \<and> calculateInverseKinematics (new_RobotKinematics staubliRX90B)
         (Num (5 / 10), Num (2 / 10), Num (3 / 10))
       = Inr \<lparr>solutions = [], valid = False\<rparr>
   \<and> calculateInverseKinematics
         (new_RobotKinematics (staubliRX90B\<lparr>jointTypes := replicate 6 Prismatic\<rparr>))
         (Num (5 / 10), Num (2 / 10), Num (3 / 10))
       = Inr \<lparr>solutions = [], valid = False\<rparr>"
proof -
  have six: "length (dhParameters staubliRX90B) \<noteq> 3"
    by (simp add: staubliRX90B_def robotWith_def)
  from inverse_kinematics_joint_count_gate
         [of staubliRX90B "(Num (5 / 10), Num (2 / 10), Num (3 / 10))" "replicate 6 Prismatic"] six
  show ?thesis by simp
qed

subsection \<open>A target at the shoulder\<close>

text \<open>
  JavaScript's comparisons are false on NaN, so a first candidate whose error is NaN is
  never replaced.  This happens when the target is the shoulder position of the first base
  angle and the two outer links are equally long: the second law of cosines divides 0 by 0,
  the guard \<^verbatim>\<open>Math.abs(cosTheta2) > 1\<close> does not skip NaN, and the solver returns a
  solution with a NaN shoulder angle.
\<close>

lemma keepAll_elbowDown_NaN_first:
  assumes "error c = NaN"
  shows "keepAll keepElbowDown (c # cs) = Some c"
proof -
  have "foldl (\<lambda>best x. if keepElbowDown x best then Some x else best) (Some c) cs = Some c"
    by (induction cs) (simp_all add: keepElbowDown_simps assms number_not_less_NaN)
  then show ?thesis by (simp add: keepAll_def keepElbowDown_simps)
qed

lemma equalLinks_ts: "jointTransforms equalLinks [Num 0, NaN, Num 0] =
   [[[Num 1, Num 0, Num 0, Num (1 / 2)], [Num 0, Num 1, Num 0, Num 0], [Num 0, Num 0, Num 1, Num 0], [Num 0, Num 0, Num 0, Num 1]],
    [[NaN, NaN, NaN, NaN], [NaN, NaN, NaN, NaN], [Num 0, Num 0, Num 1, Num 0], [Num 0, Num 0, Num 0, Num 1]],
    [[Num 1, Num 0, Num 0, Num (1 / 2)], [Num 0, Num 1, Num 0, Num 0], [Num 0, Num 0, Num 1, Num 0], [Num 0, Num 0, Num 0, Num 1]]]"
  by (simp add: equalLinks_def robotWith_def jointTransforms_def calculateDHTransform_def upt3 Let_def)

lemma equalLinks_fk:
  "calculateForwardKinematics (new_RobotKinematics equalLinks) [Num 0, NaN, Num 0]
     = Inr \<lparr>position = (NaN, NaN, NaN),
            orientation = [[NaN, NaN, NaN], [NaN, NaN, NaN], [NaN, NaN, NaN]]\<rparr>"
proof -
  have three: "length (dhParameters equalLinks) = 3" and ne: "dhParameters equalLinks \<noteq> []"
    by (simp_all add: equalLinks_def robotWith_def)
  have two: "(2::nat) = Suc (Suc 0)" by simp
  show ?thesis
    using forward_kinematics_frame [of equalLinks "[Num 0, NaN, Num 0]"] three ne
    by (simp add: equalLinks_ts two matmul_4x4_rows dot4 poseOf_def)
qed

lemma equalLinks_first_candidate:
  "elbowDownCandidate (new_RobotKinematics equalLinks) (Num (1 / 2)) (Num 0) (Num 0)
     (Num (1 / 2)) (Num (1 / 2)) (Num (1 / 2)) (Num 0) (Num 0) (Num 0)
     = Inr (Some \<lparr>solution = [Num 0, NaN, Num 0], error = NaN\<rparr>)"
  by (simp add: elbowDownCandidate_def Let_def minus_number_def equalLinks_fk Math_pow_def)

lemma target_at_shoulder_gives_NaN:
  "\<exists>ups. calculateInverseKinematics (new_RobotKinematics equalLinks) (Num (1 / 2), Num 0, Num 0)
           = Inr \<lparr>solutions = [Num 0, NaN, Num 0] # ups, valid = True\<rparr>"
proof -
  let ?tp = "(Num (1 / 2), Num 0, Num 0)"
  have len: "length (dhParameters equalLinks) = 3"
    by (simp add: equalLinks_def robotWith_def)
  have ps: "a (dhParameters equalLinks ! 0) = Num (1 / 2)"
    "a (dhParameters equalLinks ! 1) = Num (1 / 2)"
    "a (dhParameters equalLinks ! 2) = Num (1 / 2)"
    "d (dhParameters equalLinks ! 0) = Num 0"
    "d (dhParameters equalLinks ! 1) = Num 0"
    by (simp_all add: equalLinks_def robotWith_def)
  have quarter: "sqrt (1 / 4) = 1 / 2"
    by (rule real_sqrt_unique) (simp_all add: power2_eq_square)
  have reach: "\<not> Math_sqrt (Num (1 / 2) * Num (1 / 2) + Num 0 * Num 0)
                   > a (dhParameters equalLinks ! 0) + a (dhParameters equalLinks ! 1)
                       + a (dhParameters equalLinks ! 2)"
    unfolding ps by (simp add: quarter)
  obtain rest where downs:
    "downCandidates equalLinks ?tp = \<lparr>solution = [Num 0, NaN, Num 0], error = NaN\<rparr> # rest"
    unfolding downCandidates_def prod.case ps sweepAngles_Cons candidates_Cons
      equalLinks_first_candidate by simp
  have kept: "keepAll keepElbowDown (downCandidates equalLinks ?tp)
                = Some \<lparr>solution = [Num 0, NaN, Num 0], error = NaN\<rparr>"
    unfolding downs by (rule keepAll_elbowDown_NaN_first) simp
  have "\<exists>ups. ikOutcome equalLinks ?tp = \<lparr>solutions = [Num 0, NaN, Num 0] # ups, valid = True\<rparr>"
    by (simp add: ikOutcome_def kept split: option.splits)
  then show ?thesis
    unfolding inverse_kinematics_sweeps [OF len reach] by simp
qed

text \<open>
  In the same sweep the base angle \<open>\<pi> / 2\<close> gives a candidate whose error is a real
  number.
\<close>

lemma equalLinks_ts_finite: "jointTransforms equalLinks [Num u, Num v, Num w] =
   [[[Num (cos u), Num (- sin u), Num 0, Num (cos u / 2)], [Num (sin u), Num (cos u), Num 0, Num (sin u / 2)], [Num 0, Num 0, Num 1, Num 0], [Num 0, Num 0, Num 0, Num 1]],
    [[Num (cos v), Num (- sin v), Num 0, Num (cos v / 2)], [Num (sin v), Num (cos v), Num 0, Num (sin v / 2)], [Num 0, Num 0, Num 1, Num 0], [Num 0, Num 0, Num 0, Num 1]],
    [[Num (cos w), Num (- sin w), Num 0, Num (cos w / 2)], [Num (sin w), Num (cos w), Num 0, Num (sin w / 2)], [Num 0, Num 0, Num 1, Num 0], [Num 0, Num 0, Num 0, Num 1]]]"
  by (simp add: equalLinks_def robotWith_def jointTransforms_def calculateDHTransform_def upt3 Let_def)

lemma equalLinks_fk_finite:
  assumes "calculateForwardKinematics (new_RobotKinematics equalLinks) [Num u, Num v, Num w] = Inr fk"
  shows "\<exists>p0 p1 p2. position fk = (Num p0, Num p1, Num p2)"
proof -
  have three: "length (dhParameters equalLinks) = 3" and ne: "dhParameters equalLinks \<noteq> []"
    by (simp_all add: equalLinks_def robotWith_def)
  have two: "(2::nat) = Suc (Suc 0)" by simp
  show ?thesis
    using forward_kinematics_frame [of equalLinks "[Num u, Num v, Num w]"] three ne assms
    by (auto simp: equalLinks_ts_finite two matmul_4x4_rows dot4 poseOf_def)
qed

lemma sqrt_half_bounds: "1 / 2 < sqrt (1 / 2)" "sqrt (1 / 2) < 1"
proof -
  show "1 / 2 < sqrt (1 / 2)"
    by (rule real_less_rsqrt) (simp add: power2_eq_square)
  show "sqrt (1 / 2) < 1" by simp
qed

lemma position_error_finite:
  "Math_sqrt (Math_pow (Num u) 2 + Math_pow (Num v) 2 + Math_pow (Num w) 2)
     = Num (sqrt (u\<^sup>2 + v\<^sup>2 + w\<^sup>2))"
proof -
  have "0 \<le> u\<^sup>2 + v\<^sup>2 + w\<^sup>2" by simp
  then show ?thesis by (simp add: Math_pow_def not_less [symmetric])
qed

lemma equalLinks_quarter_turn_candidate:
  "\<exists>c e. elbowDownCandidate (new_RobotKinematics equalLinks) (Num (1 / 2)) (Num 0) (Num 0)
            (Num (1 / 2)) (Num (1 / 2)) (Num (1 / 2)) (Num 0) (Num 0) (Num (pi / 2))
            = Inr (Some c)
         \<and> error c = Num e"
proof -
  have len: "length (dhParameters equalLinks) = 3"
    by (simp add: equalLinks_def robotWith_def)
  have pos: "0 < 1 / (2 * sqrt (1 / 2))" by simp
  have c2: "\<not> 2 * sqrt (1 / 2) < 1" using sqrt_half_bounds by simp
  have c3: "\<not> 1 / (2 * sqrt (1 / 2)) < - 1" using pos by linarith
  define t2 where "t2 = atan2 0 (sqrt (1 / 2)) - arccos (1 / (2 * sqrt (1 / 2)))"
  obtain fk where fk: "calculateForwardKinematics (new_RobotKinematics equalLinks)
               [Num (pi / 2), Num t2, Num (pi / 2)] = Inr fk"
    using forward_kinematics_3 [OF len, of "Num (pi / 2)" "Num t2" "Num (pi / 2)"]
    by (cases "calculateForwardKinematics (new_RobotKinematics equalLinks)
               [Num (pi / 2), Num t2, Num (pi / 2)]") auto
  from equalLinks_fk_finite [OF fk] obtain p0 p1 p2
    where p: "position fk = (Num p0, Num p1, Num p2)" by blast
  show ?thesis
    using c2 c3
    by (simp add: elbowDownCandidate_def Let_def t2_def [symmetric] fk p position_error_finite)
qed

lemma candidates_member:
  assumes "t \<in> set ts" and "body (Num t) = Inr (Some c)"
  shows "c \<in> set (candidates body ts)"
  using assms by (force simp: candidates_def)

lemma quarter_turn_in_sweep: "pi / 2 \<in> set (map (\<lambda>k. real k * stepSize) [1 ..< 360])"
proof -
  have "real 90 * stepSize = pi / 2" by (simp add: stepSize_def)
  moreover have "(90::nat) \<in> set [1 ..< 360]" by simp
  ultimately show ?thesis by (metis (no_types, lifting) image_eqI set_map)
qed

text \<open>
  A loop over base angles that start with 0 keeps that candidate whatever the later base
  angles are, and however many there are.
\<close>

lemma equalLinks_any_sweep:
  "sweepOver (elbowDownCandidate (new_RobotKinematics equalLinks) (Num (1 / 2)) (Num 0) (Num 0)
                (Num (1 / 2)) (Num (1 / 2)) (Num (1 / 2)) (Num 0) (Num 0))
     keepElbowDown (0 # ts) None
     = Inr (Some \<lparr>solution = [Num 0, NaN, Num 0], error = NaN\<rparr>)"
proof -
  let ?body = "elbowDownCandidate (new_RobotKinematics equalLinks) (Num (1 / 2)) (Num 0) (Num 0)
                 (Num (1 / 2)) (Num (1 / 2)) (Num (1 / 2)) (Num 0) (Num 0)"
  have len: "length (dhParameters equalLinks) = 3"
    by (simp add: equalLinks_def robotWith_def)
  have total: "\<exists>r. ?body t = Inr r" for t
    using len by (rule elbowDownCandidate_Inr)
  have cs: "candidates ?body (0 # ts)
              = \<lparr>solution = [Num 0, NaN, Num 0], error = NaN\<rparr> # candidates ?body ts"
    unfolding candidates_Cons equalLinks_first_candidate by simp
  have "sweepOver ?body keepElbowDown (0 # ts) None
          = Inr (keepAll keepElbowDown (candidates ?body (0 # ts)))"
    unfolding keepAll_def using total by (rule sweepOver_candidates)
  also have "keepAll keepElbowDown (candidates ?body (0 # ts))
               = Some \<lparr>solution = [Num 0, NaN, Num 0], error = NaN\<rparr>"
    unfolding cs by (rule keepAll_elbowDown_NaN_first) simp
  finally show ?thesis .
qed

text \<open>
  Claim C5 says that the first sweep keeps the candidate with the strictly smallest
  forward-kinematics position error and returns it as the first solution.  For three links
  of length 1/2 and the target \<open>(1/2, 0, 0)\<close> the function returns \<open>[0, NaN, 0]\<close> as its
  first solution: the candidate of the base angle 0, whose error is NaN, although the sweep
  has candidates whose error is a real number.  The loop keeps this candidate for every
  list of base angles that starts with 0.
\<close>

theorem target_at_shoulder_keeps_NaN_candidate:
  "(\<exists>ups. calculateInverseKinematics (new_RobotKinematics equalLinks) (Num (1 / 2), Num 0, Num 0)
            = Inr \<lparr>solutions = [Num 0, NaN, Num 0] # ups, valid = True\<rparr>)
   \<and> (\<exists>others. downCandidates equalLinks (Num (1 / 2), Num 0, Num 0)
                   = \<lparr>solution = [Num 0, NaN, Num 0], error = NaN\<rparr> # others
          \<and> list_ex (\<lambda>c. \<exists>e. error c = Num e) others)
   \<and> (\<forall>ts. sweepOver
               (elbowDownCandidate (new_RobotKinematics equalLinks) (Num (1 / 2)) (Num 0) (Num 0)
                  (Num (1 / 2)) (Num (1 / 2)) (Num (1 / 2)) (Num 0) (Num 0))
               keepElbowDown (0 # ts) None
             = Inr (Some \<lparr>solution = [Num 0, NaN, Num 0], error = NaN\<rparr>))"
proof -
  let ?tp = "(Num (1 / 2), Num 0, Num 0)"
  let ?body = "elbowDownCandidate (new_RobotKinematics equalLinks) (Num (1 / 2)) (Num 0) (Num 0)
                 (Num (1 / 2)) (Num (1 / 2)) (Num (1 / 2)) (Num 0) (Num 0)"
  let ?rest = "map (\<lambda>k. real k * stepSize) [1 ..< 360]"
  have ps: "a (dhParameters equalLinks ! 0) = Num (1 / 2)"
    "a (dhParameters equalLinks ! 1) = Num (1 / 2)"
    "a (dhParameters equalLinks ! 2) = Num (1 / 2)"
    "d (dhParameters equalLinks ! 0) = Num 0"
    "d (dhParameters equalLinks ! 1) = Num 0"
    by (simp_all add: equalLinks_def robotWith_def)
  have downs: "downCandidates equalLinks ?tp
                 = \<lparr>solution = [Num 0, NaN, Num 0], error = NaN\<rparr> # candidates ?body ?rest"
    unfolding downCandidates_def prod.case ps sweepAngles_Cons candidates_Cons
      equalLinks_first_candidate by simp
  from equalLinks_quarter_turn_candidate obtain c e
    where c: "?body (Num (pi / 2)) = Inr (Some c)" and e: "error c = Num e" by blast
  have "c \<in> set (candidates ?body ?rest)"
    using quarter_turn_in_sweep c by (rule candidates_member)
  with e have ex: "list_ex (\<lambda>c. \<exists>e. error c = Num e) (candidates ?body ?rest)"
    by (auto simp: list_ex_iff)
  have others: "\<exists>others. downCandidates equalLinks ?tp
                    = \<lparr>solution = [Num 0, NaN, Num 0], error = NaN\<rparr> # others
                  \<and> list_ex (\<lambda>c. \<exists>e. error c = Num e) others"
    using downs ex by blast
  have loop: "\<forall>ts. sweepOver ?body keepElbowDown (0 # ts) None
                = Inr (Some \<lparr>solution = [Num 0, NaN, Num 0], error = NaN\<rparr>)"
    by (intro allI) (rule equalLinks_any_sweep)
  from target_at_shoulder_gives_NaN others loop show ?thesis by (intro conjI)
qed

end
